theory Spec2Isabelle
  imports Complex_Main
begin

section \<open>The record store\<close>

text \<open>
  The handlers reach the database through the Supabase client. The store is modelled as
  a value that every handler takes and returns: the table \<open>tourist_profiles\<close>, keyed by
  \<open>user_id\<close>, and the table \<open>alerts\<close>, a list of rows in insertion order.

  A number field holds a real. The comparisons of the validators and \<open>parseInt\<close> read it
  as it is; \<open>calculateDistance\<close>, the one place where the handlers compute with
  numbers, reads it as the double nearest to it and computes in double precision (see
  below). Text is \<open>string\<close>, a field that may be \<open>undefined\<close> or \<open>null\<close> is an
  \<open>option\<close>.
  A request body is read at the types its handler expects: a number in a number field,
  a text in a text field, \<open>None\<close> for a field that is absent. Bodies that carry a value
  of another JSON type in a field are outside the model.
  \<open>new Date().toISOString()\<close> and \<open>Date.now()\<close> are the argument \<open>now\<close> of a handler,
  a natural number whose order is the order of the timestamps.

  A call of the client either resolves without error, resolves with an \<open>error\<close> object
  (code and message), or rejects (throws). Which of these happens is an argument of the
  handlers, one \<open>fault option\<close> per call: \<open>None\<close> is a store that works.
\<close>

type_synonym user_id = string
type_synonym timestamp = nat

datatype fault = DbError string string | Thrown

record location_entry =
  le_latitude :: real
  le_longitude :: real
  le_accuracy :: "real option"
  le_address :: "string option"
  le_timestamp :: timestamp
  le_source :: string

record coordinates =
  c_latitude :: real
  c_longitude :: real

record geofence =
  gf_id :: string
  gf_name :: string
  gf_coordinates :: coordinates
  gf_radius :: int
  gf_type :: string
  gf_is_active :: bool
  gf_created_at :: timestamp
  gf_created_by :: "string option"

record tourist_profile =
  tp_location_history :: "location_entry list option"
  tp_geofences :: "geofence list option"
  tp_updated_at :: timestamp

text \<open>
  \<open>JSON.stringify(v)\<close> is kept as a constructor around the value it serialises, so a
  column that holds JSON text is told apart from one that holds the value.
\<close>

datatype 'a json_text = JSON_stringify 'a

record location =
  loc_latitude :: "real option"
  loc_longitude :: "real option"
  loc_address :: "string option"
  loc_accuracy :: "real option"

record response_entry =
  r_responder_id :: user_id
  r_action :: string
  r_timestamp :: timestamp
  r_notes :: string

text \<open>
  The column \<open>responses\<close> of an alert is \<open>null\<close>, an array, or a text (the controller
  writes \<open>JSON.stringify\<close> of the array). The elements of an array are response objects
  or, after a text has been spread by \<open>[...text]\<close>, one-character strings.
\<close>

datatype response_item = REntry response_entry | RChar char

datatype responses_column = RNull | RArray "response_item list" | RText string

text \<open>The free-form object \<open>additional_data\<close>: keys with scalar values.\<close>

datatype json_scalar = JBool bool | JNumber real | JString string | JTime timestamp

type_synonym additional_data = "(string \<times> json_scalar) list"

text \<open>
  A row of \<open>alerts\<close>. \<open>al_id\<close> and \<open>al_created_at\<close> are filled in by the store; a
  column that an insert does not supply is \<open>None\<close> (the default of the schema, which is
  not part of the sources).
\<close>

record alert =
  al_id :: nat
  al_tourist_id :: user_id
  al_type :: string
  al_severity :: string
  al_location :: "location json_text"
  al_message :: "string option"
  al_additional_data :: "additional_data json_text option"
  al_status :: "string option"
  al_assigned_to :: "user_id option"
  al_responses :: responses_column
  al_created_at :: timestamp
  al_updated_at :: "timestamp option"
  al_resolved_at :: "timestamp option"
  al_auto_generated :: "bool option"

record db =
  tourist_profiles :: "user_id \<rightharpoonup> tourist_profile"
  alerts :: "alert list"
  next_alert_id :: nat

record user =
  u_id :: user_id
  u_role :: string
  u_name :: string

text \<open>What \<open>res.status(c).json(b)\<close> sends: the status code and the body.\<close>

record pagination =
  pg_page :: int
  pg_limit :: int
  pg_total :: "nat option"
  pg_pages :: "int option"

datatype payload =
    Error string
  | LocationUpdated tourist_profile
  | GeofenceCreated geofence
  | AlertCreated string alert string
  | AlertUpdated alert
  | AlertList "alert list" pagination

type_synonym response = "nat \<times> payload"

subsection \<open>Calls of the client on \<open>tourist_profiles\<close>\<close>

text \<open>
  \<open>.from('tourist_profiles').select(col).eq('user_id', id).single()\<close>: the row, or the
  error \<open>PGRST116\<close> when there is none. \<open>Inl\<close> is a rejected promise.
\<close>

datatype 'a query_result = Data 'a | QError string string

fun error_code :: "'a query_result \<Rightarrow> string option" where
  "error_code (Data _) = None"
| "error_code (QError c _) = Some c"

fun error_message :: "'a query_result \<Rightarrow> string" where
  "error_message (Data _) = []"
| "error_message (QError _ m) = m"

fun select_profile :: "fault option \<Rightarrow> user_id \<Rightarrow> db \<Rightarrow> unit + tourist_profile query_result" where
  "select_profile (Some Thrown) uid d = Inl ()"
| "select_profile (Some (DbError c m)) uid d = Inr (QError c m)"
| "select_profile None uid d =
     (case tourist_profiles d uid of
        None \<Rightarrow> Inr (QError ''PGRST116'' ''JSON object requested, multiple (or no) rows returned'')
      | Some p \<Rightarrow> Inr (Data p))"


fun upsert_geofences ::
  "fault option \<Rightarrow> user_id \<Rightarrow> geofence list \<Rightarrow> timestamp \<Rightarrow> db
     \<Rightarrow> unit + (tourist_profile query_result \<times> db)" where
  "upsert_geofences (Some Thrown) uid gs now d = Inl ()"
| "upsert_geofences (Some (DbError c m)) uid gs now d = Inr (QError c m, d)"
| "upsert_geofences None uid gs now d =
     (let p = (case tourist_profiles d uid of
                 None \<Rightarrow> \<lparr>tp_location_history = None, tp_geofences = Some gs, tp_updated_at = now\<rparr>
               | Some p0 \<Rightarrow> p0\<lparr>tp_geofences := Some gs, tp_updated_at := now\<rparr>)
      in Inr (Data p, d\<lparr>tourist_profiles := (tourist_profiles d)(uid \<mapsto> p)\<rparr>))"

text \<open>
  \<open>.from('alerts').insert(row)\<close>: the store numbers the row and stamps its creation
  time. The caller in \<open>checkGeofenceViolations\<close> does not look at the result.
\<close>

fun insert_alert :: "fault option \<Rightarrow> alert \<Rightarrow> timestamp \<Rightarrow> db \<Rightarrow> unit + (alert query_result \<times> db)" where
  "insert_alert (Some Thrown) row now d = Inl ()"
| "insert_alert (Some (DbError c m)) row now d = Inr (QError c m, d)"
| "insert_alert None row now d =
     (let a = row\<lparr>al_id := next_alert_id d, al_created_at := now\<rparr>
      in Inr (Data a, d\<lparr>alerts := alerts d @ [a], next_alert_id := Suc (next_alert_id d)\<rparr>))"

section \<open>Double-precision numbers\<close>

text \<open>
  A JavaScript number is an IEEE 754 binary64 value: a finite number, an infinity or
  \<open>NaN\<close>. The model has a single zero, read as \<open>+0\<close>: of the operations below only
  division, \<open>Math.sqrt\<close> and \<open>Math.atan2\<close> tell \<open>-0\<close> from \<open>+0\<close>, and in
  \<open>calculateDistance\<close> the divisors are the constants 180 and 2 and the arguments of
  \<open>Math.sqrt\<close> and \<open>Math.atan2\<close> are a sum with a square, a difference \<open>1 - a\<close> and square
  roots, none of which is \<open>-0\<close>.
\<close>

datatype double = Fin real | PInf | NInf | NaN

text \<open>
  Rounding to the nearest double, ties to even. A double has 53 significant bits; the
  exponent of a normal double is at least \<open>-1022\<close>, below that the doubles are equally
  spaced (subnormal). \<open>exponent x\<close> is the exponent of the binade of \<open>x\<close>, so the doubles
  around \<open>x\<close> are the multiples of \<open>2 powi (exponent x - 52)\<close>. A result that rounds to
  \<open>2 powi 1024\<close> or beyond is an infinity.
\<close>

definition round_even :: "real \<Rightarrow> int" where
  "round_even y =
     (let f = \<lfloor>y\<rfloor>
      in if y - of_int f < 1 / 2 then f
         else if 1 / 2 < y - of_int f then f + 1
         else if even f then f else f + 1)"

definition exponent :: "real \<Rightarrow> int" where
  "exponent x = max \<lfloor>log 2 \<bar>x\<bar>\<rfloor> (- 1022)"

definition huge :: real where
  "huge = 2 powi 1024"

definition nearest :: "real \<Rightarrow> double" where
  "nearest x =
     (if x = 0 then Fin 0
      else
        let q = 2 powi (exponent x - 52);
            r = of_int (round_even (x / q)) * q
        in if huge \<le> r then PInf
           else if r \<le> - huge then NInf
           else Fin r)"

text \<open>A number of a request or of the store, as \<open>calculateDistance\<close> receives it.\<close>

definition number :: "real \<Rightarrow> double" where
  "number x = nearest x"

text \<open>
  The operators \<open>+\<close>, \<open>-\<close>, \<open>*\<close>, \<open>/\<close> and \<open><=\<close>. On finite operands the result is the
  exact result rounded; \<open>NaN\<close> is kept by every operator and compares false with
  everything.
\<close>

fun negative :: "double \<Rightarrow> bool" where
  "negative (Fin r) = (r < 0)"
| "negative PInf = False"
| "negative NInf = True"
| "negative NaN = False"

fun dneg :: "double \<Rightarrow> double" where
  "dneg (Fin r) = Fin (- r)"
| "dneg PInf = NInf"
| "dneg NInf = PInf"
| "dneg NaN = NaN"

fun dadd :: "double \<Rightarrow> double \<Rightarrow> double" where
  "dadd NaN y = NaN"
| "dadd x NaN = NaN"
| "dadd (Fin a) (Fin b) = nearest (a + b)"
| "dadd PInf NInf = NaN"
| "dadd NInf PInf = NaN"
| "dadd (Fin a) y = y"
| "dadd x y = x"

definition dsub :: "double \<Rightarrow> double \<Rightarrow> double" where
  "dsub x y = dadd x (dneg y)"

fun dmul :: "double \<Rightarrow> double \<Rightarrow> double" where
  "dmul NaN y = NaN"
| "dmul x NaN = NaN"
| "dmul (Fin a) (Fin b) = nearest (a * b)"
| "dmul x y = (if x = Fin 0 \<or> y = Fin 0 then NaN
               else if negative x = negative y then PInf else NInf)"

fun ddiv :: "double \<Rightarrow> double \<Rightarrow> double" where
  "ddiv NaN y = NaN"
| "ddiv x NaN = NaN"
| "ddiv (Fin a) (Fin b) =
     (if b = 0 then (if a = 0 then NaN else if 0 < a then PInf else NInf)
      else nearest (a / b))"
| "ddiv (Fin a) y = Fin 0"
| "ddiv x (Fin b) = (if negative x = (b < 0) then PInf else NInf)"
| "ddiv x y = NaN"


subsection \<open>The functions of \<open>Math\<close>\<close>

text \<open>
  The language standard fixes the result of \<open>Math.sin\<close>, \<open>Math.cos\<close>, \<open>Math.sqrt\<close> and
  \<open>Math.atan2\<close> at \<open>NaN\<close>, at the infinities and at zero, and leaves every other result to
  the implementation, as an approximation of the exact value. The approximations are
  taken as a parameter, the platform; what the standard fixes is written out.
  \<open>Math.PI\<close> is the double nearest to \<open>pi\<close>.
\<close>

record platform =
  sin_approx :: "real \<Rightarrow> real"
  cos_approx :: "real \<Rightarrow> real"
  sqrt_approx :: "real \<Rightarrow> real"
  atan2_approx :: "double \<Rightarrow> double \<Rightarrow> real"


definition Math_sin :: "platform \<Rightarrow> double \<Rightarrow> double" where
  "Math_sin P x =
     (case x of
        Fin r \<Rightarrow> if r = 0 then Fin 0 else nearest (sin_approx P r)
      | _ \<Rightarrow> NaN)"

definition Math_cos :: "platform \<Rightarrow> double \<Rightarrow> double" where
  "Math_cos P x =
     (case x of
        Fin r \<Rightarrow> if r = 0 then Fin 1 else nearest (cos_approx P r)
      | _ \<Rightarrow> NaN)"

definition Math_sqrt :: "platform \<Rightarrow> double \<Rightarrow> double" where
  "Math_sqrt P x =
     (case x of
        Fin r \<Rightarrow> if r < 0 then NaN else if r = 0 then Fin 0 else nearest (sqrt_approx P r)
      | PInf \<Rightarrow> PInf
      | _ \<Rightarrow> NaN)"

fun is_finite :: "double \<Rightarrow> bool" where
  "is_finite (Fin r) = True"
| "is_finite x = False"

definition Math_atan2 :: "platform \<Rightarrow> double \<Rightarrow> double \<Rightarrow> double" where
  "Math_atan2 P y x =
     (if y = NaN \<or> x = NaN then NaN
      else if is_finite y \<and> x = PInf then Fin 0
      else if y = Fin 0 \<and> \<not> negative x then Fin 0
      else nearest (atan2_approx P y x))"




section \<open>Geometry: \<open>calculateDistance\<close>\<close>



section \<open>The tourist controller\<close>

text \<open>
  The controller that exports \<open>updateLocation\<close>, \<open>getSafetyScore\<close> and \<open>createGeofence\<close>,
  with its helpers \<open>checkGeofenceViolations\<close> and \<open>calculateDistance\<close> (above).
\<close>

subsection \<open>\<open>checkGeofenceViolations\<close>\<close>






subsection \<open>\<open>updateLocation\<close>\<close>

text \<open>
  The request body after JSON parsing. The optional \<open>timestamp\<close> is only validated: the
  handler stamps the entry with its own clock.
\<close>

datatype date_input = ValidDate timestamp | InvalidDate







subsection \<open>\<open>createGeofence\<close>\<close>

text \<open>
  \<open>!x\<close> on a field of the body: an absent field, the empty string and the number 0 are
  falsy.
\<close>

fun truthy_text :: "string option \<Rightarrow> bool" where
  "truthy_text None = False"
| "truthy_text (Some s) = (s \<noteq> [])"

fun truthy_number :: "real option \<Rightarrow> bool" where
  "truthy_number None = False"
| "truthy_number (Some x) = (x \<noteq> 0)"

text \<open>
  \<open>parseInt(x)\<close> on a number: the number is written out and the leading integer is read
  back. The decimal form is used from \<open>1e-6\<close> up to \<open>1e21\<close>, where this truncates towards
  zero; outside, the text is in exponent form and \<open>parseInt\<close> reads its first digit.
\<close>

definition parseInt :: "real \<Rightarrow> int" where
  "parseInt x =
     (if x = 0 then 0
      else if 1 / 10 ^ 6 \<le> \<bar>x\<bar> \<and> \<bar>x\<bar> < 10 ^ 21
      then (if 0 \<le> x then \<lfloor>x\<rfloor> else \<lceil>x\<rceil>)
      else (if 0 \<le> x then 1 else - 1) * \<lfloor>\<bar>x\<bar> / 10 powr of_int \<lfloor>log 10 \<bar>x\<bar>\<rfloor>\<rfloor>)"

text \<open>The decimal text of a natural number, as in \<open>`geofence_${Date.now()}`\<close>.\<close>

definition digit_char :: "nat \<Rightarrow> char" where
  "digit_char n = ''0123456789'' ! n"

fun decimal :: "nat \<Rightarrow> string" where
  "decimal n = (if n < 10 then [digit_char n] else decimal (n div 10) @ [digit_char (n mod 10)])"

declare decimal.simps [simp del]

record create_geofence_body =
  cg_name :: "string option"
  cg_latitude :: "real option"
  cg_longitude :: "real option"
  cg_radius :: "real option"
  cg_type :: "string option"

record geofence_faults =
  gff_fetch :: "fault option"
  gff_upsert :: "fault option"

definition newGeofence :: "create_geofence_body \<Rightarrow> timestamp \<Rightarrow> string option \<Rightarrow> geofence" where
  "newGeofence b now created_by =
     \<lparr>gf_id = ''geofence_'' @ decimal now,
      gf_name = the (cg_name b),
      gf_coordinates = \<lparr>c_latitude = the (cg_latitude b), c_longitude = the (cg_longitude b)\<rparr>,
      gf_radius = parseInt (the (cg_radius b)),
      gf_type = the (cg_type b),
      gf_is_active = True,
      gf_created_at = now,
      gf_created_by = created_by\<rparr>"

definition createGeofence ::
  "geofence_faults \<Rightarrow> user \<Rightarrow> create_geofence_body \<Rightarrow> timestamp \<Rightarrow> db
     \<Rightarrow> response \<times> db \<times> string list" where
  "createGeofence gf usr b now d =
     (if \<not> truthy_text (cg_name b) \<or> \<not> truthy_number (cg_latitude b) \<or>
         \<not> truthy_number (cg_longitude b) \<or> \<not> truthy_number (cg_radius b) \<or>
         \<not> truthy_text (cg_type b)
      then ((400, Error ''Name, coordinates, radius, and type are required''), d, [])
      else if the (cg_type b) \<notin> set [''safe'', ''warning'', ''danger'']
      then ((400, Error ''Type must be safe, warning, or danger''), d, [])
      else
        (case select_profile (gff_fetch gf) (u_id usr) d of
           Inl _ \<Rightarrow> ((500, Error ''Failed to create geofence''), d, [''Create geofence error:''])
         | Inr fetched \<Rightarrow>
             if error_code fetched \<noteq> None \<and> error_code fetched \<noteq> Some ''PGRST116''
             then ((500, Error (error_message fetched)), d, [])
             else
               let currentGeofences =
                     (case fetched of
                        Data profile \<Rightarrow> (case tp_geofences profile of None \<Rightarrow> [] | Some gs \<Rightarrow> gs)
                      | QError _ _ \<Rightarrow> []);
                   updatedGeofences = currentGeofences @ [newGeofence b now None]
               in (case upsert_geofences (gff_upsert gf) (u_id usr) updatedGeofences now d of
                     Inl _ \<Rightarrow>
                       ((500, Error ''Failed to create geofence''), d, [''Create geofence error:''])
                   | Inr (QError c m, d') \<Rightarrow> ((500, Error m), d', [])
                   | Inr (Data updatedProfile, d') \<Rightarrow>
                       ((201, GeofenceCreated (newGeofence b now None)), d', []))))"

text \<open>
  The handler of \<open>POST /geofences\<close> in \<open>routes/tourist.js\<close> makes the same checks and
  builds the same object, with \<open>created_by\<close>, but stores nothing.
\<close>

definition post_geofences ::
  "user \<Rightarrow> create_geofence_body \<Rightarrow> timestamp \<Rightarrow> db \<Rightarrow> response \<times> db \<times> string list" where
  "post_geofences usr b now d =
     (if \<not> truthy_text (cg_name b) \<or> \<not> truthy_number (cg_latitude b) \<or>
         \<not> truthy_number (cg_longitude b) \<or> \<not> truthy_number (cg_radius b) \<or>
         \<not> truthy_text (cg_type b)
      then ((400, Error ''Name, coordinates, radius, and type are required''), d, [])
      else if the (cg_type b) \<notin> set [''safe'', ''warning'', ''danger'']
      then ((400, Error ''Type must be safe, warning, or danger''), d, [])
      else ((201, GeofenceCreated (newGeofence b now (Some (u_name usr)))), d,
            [''Geofence created:'']))"

section \<open>The alert routes\<close>

text \<open>
  The handlers of the alert router, named after their routes. The router runs
  \<open>authenticateToken\<close> before every handler and \<open>authorize('tourist')\<close> before the two
  \<open>POST\<close> handlers; the handlers below are what runs after these guards, on the
  \<open>req.user\<close> they leave.
\<close>

subsection \<open>Calls of the client on \<open>alerts\<close>\<close>

text \<open>
  \<open>.select(cols).eq('id', alertId).single()\<close>: the row with this id when there is exactly
  one.
\<close>

fun select_alert :: "fault option \<Rightarrow> nat \<Rightarrow> db \<Rightarrow> unit + alert query_result" where
  "select_alert (Some Thrown) alertId d = Inl ()"
| "select_alert (Some (DbError c m)) alertId d = Inr (QError c m)"
| "select_alert None alertId d =
     (case filter (\<lambda>a. al_id a = alertId) (alerts d) of
        [a] \<Rightarrow> Inr (Data a)
      | _ \<Rightarrow> Inr (QError ''PGRST116'' ''JSON object requested, multiple (or no) rows returned''))"

text \<open>
  \<open>updateData\<close>: the columns an update writes. A key that is absent or \<open>undefined\<close> is
  left out of the request and its column keeps its value.
\<close>

record update_data =
  ud_status :: "string option"
  ud_updated_at :: timestamp
  ud_resolved_at :: "timestamp option"
  ud_assigned_to :: "user_id option"
  ud_responses :: responses_column

definition apply_update :: "update_data \<Rightarrow> alert \<Rightarrow> alert" where
  "apply_update u a =
     a\<lparr>al_status := (case ud_status u of None \<Rightarrow> al_status a | Some s \<Rightarrow> Some s),
       al_updated_at := Some (ud_updated_at u),
       al_resolved_at := (case ud_resolved_at u of None \<Rightarrow> al_resolved_at a | Some t \<Rightarrow> Some t),
       al_assigned_to := (case ud_assigned_to u of None \<Rightarrow> al_assigned_to a | Some i \<Rightarrow> Some i),
       al_responses := ud_responses u\<rparr>"

text \<open>\<open>.update(updateData).eq('id', alertId).select(cols).single()\<close>\<close>

fun update_alert ::
  "fault option \<Rightarrow> nat \<Rightarrow> update_data \<Rightarrow> db \<Rightarrow> unit + (alert query_result \<times> db)" where
  "update_alert (Some Thrown) alertId u d = Inl ()"
| "update_alert (Some (DbError c m)) alertId u d = Inr (QError c m, d)"
| "update_alert None alertId u d =
     (case filter (\<lambda>a. al_id a = alertId) (alerts d) of
        [a] \<Rightarrow>
          Inr (Data (apply_update u a),
               d\<lparr>alerts := map (\<lambda>a. if al_id a = alertId then apply_update u a else a) (alerts d)\<rparr>)
      | _ \<Rightarrow> Inr (QError ''PGRST116'' ''JSON object requested, multiple (or no) rows returned'', d))"

text \<open>
  The list query: \<open>.select(cols).order('created_at', {ascending: false})\<close>, the \<open>.eq\<close>
  filters, \<open>.range(from, to)\<close>. The client reports \<open>count\<close> only when the \<open>select\<close> asks
  for it (\<open>{count: 'exact'}\<close>), which is the argument \<open>want_count\<close>; otherwise \<open>count\<close>
  is \<open>null\<close>. What the store answers to a range that does not satisfy
  \<open>0 \<le> from \<le> to\<close> is not in the sources; it is taken to be an error. The embedded
  \<open>user_profiles\<close> of each row are left out.
\<close>

definition order_created_at_desc :: "alert list \<Rightarrow> alert list" where
  "order_created_at_desc rows = rev (sort_key al_created_at rows)"

fun select_alerts ::
  "fault option \<Rightarrow> bool \<Rightarrow> (alert \<Rightarrow> bool) \<Rightarrow> int \<Rightarrow> int \<Rightarrow> db
     \<Rightarrow> unit + (alert list \<times> nat option) query_result" where
  "select_alerts (Some Thrown) want_count matches from to d = Inl ()"
| "select_alerts (Some (DbError c m)) want_count matches from to d = Inr (QError c m)"
| "select_alerts None want_count matches from to d =
     (if from < 0 \<or> to < from then Inr (QError ''PGRST103'' ''Requested range not satisfiable'')
      else
        let found = filter matches (order_created_at_desc (alerts d))
        in Inr (Data (take (nat (to - from + 1)) (drop (nat from) found),
                      if want_count then Some (length found) else None)))"

subsection \<open>\<open>POST /\<close>: create an alert\<close>

record create_alert_body =
  ca_type :: "string option"
  ca_severity :: "string option"
  ca_location :: "location option"
  ca_message :: "string option"
  ca_additional_data :: "additional_data option"

definition join :: "string \<Rightarrow> string list \<Rightarrow> string" where
  "join sep xs = (case xs of [] \<Rightarrow> [] | x # rest \<Rightarrow> x @ concat (map (\<lambda>y. sep @ y) rest))"

definition validTypes :: "string list" where
  "validTypes = [''panic'', ''geofence_violation'', ''low_safety_score'', ''missing'',
                 ''health_emergency'', ''suspicious_activity'']"

definition new_alert ::
  "user_id \<Rightarrow> string \<Rightarrow> string \<Rightarrow> location \<Rightarrow> string option \<Rightarrow> additional_data \<Rightarrow> alert" where
  "new_alert tourist_id type severity loc message additional =
     \<lparr>al_id = 0,
      al_tourist_id = tourist_id,
      al_type = type,
      al_severity = severity,
      al_location = JSON_stringify loc,
      al_message = message,
      al_additional_data = Some (JSON_stringify additional),
      al_status = Some ''active'',
      al_assigned_to = None,
      al_responses = RNull,
      al_created_at = 0,
      al_updated_at = None,
      al_resolved_at = None,
      al_auto_generated = None\<rparr>"

definition post_alert ::
  "fault option \<Rightarrow> user \<Rightarrow> create_alert_body \<Rightarrow> timestamp \<Rightarrow> db \<Rightarrow> response \<times> db \<times> string list" where
  "post_alert f usr b now d =
     (if \<not> truthy_text (ca_type b) \<or> ca_location b = None \<or>
         \<not> truthy_number (loc_latitude (the (ca_location b))) \<or>
         \<not> truthy_number (loc_longitude (the (ca_location b)))
      then ((400, Error ''Type and location (latitude, longitude) are required''), d, [])
      else if the (ca_type b) \<notin> set validTypes
      then ((400, Error (''Type must be one of: '' @ join '', '' validTypes)), d, [])
      else
        (case insert_alert f
                (new_alert (u_id usr) (the (ca_type b))
                   (if truthy_text (ca_severity b) then the (ca_severity b) else ''medium'')
                   (the (ca_location b)) (ca_message b)
                   (case ca_additional_data b of None \<Rightarrow> [] | Some a \<Rightarrow> a))
                now d of
           Inl _ \<Rightarrow> ((500, Error ''Failed to create alert''), d, [''Create alert error:''])
         | Inr (QError c m, d') \<Rightarrow>
             ((500, Error ''Failed to create alert''), d', [''Alert creation error:''])
         | Inr (Data a, d') \<Rightarrow>
             ((201, AlertCreated ''Alert created successfully'' a (u_name usr)), d',
              [''NEW ALERT''])))"

subsection \<open>\<open>POST /panic\<close>\<close>

record panic_body =
  pb_location :: "location option"
  pb_message :: "string option"

definition post_panic ::
  "fault option \<Rightarrow> user \<Rightarrow> panic_body \<Rightarrow> timestamp \<Rightarrow> db \<Rightarrow> response \<times> db \<times> string list" where
  "post_panic f usr b now d =
     (if pb_location b = None \<or>
         \<not> truthy_number (loc_latitude (the (pb_location b))) \<or>
         \<not> truthy_number (loc_longitude (the (pb_location b)))
      then ((400, Error ''Location with latitude and longitude required for panic alert''), d, [])
      else
        (case insert_alert f
                (new_alert (u_id usr) ''panic'' ''critical'' (the (pb_location b))
                   (Some (if truthy_text (pb_message b) then the (pb_message b)
                          else ''PANIC BUTTON PRESSED - Immediate assistance required!''))
                   [(''panic_button'', JBool True), (''timestamp'', JTime now)])
                now d of
           Inl _ \<Rightarrow> ((500, Error ''Failed to create panic alert''), d, [''Panic alert error:''])
         | Inr (QError c m, d') \<Rightarrow>
             ((500, Error ''Failed to create panic alert''), d', [''Panic alert creation error:''])
         | Inr (Data a, d') \<Rightarrow>
             ((201, AlertCreated ''PANIC ALERT CREATED - Authorities notified'' a (u_name usr)), d',
              [''PANIC ALERT''])))"

subsection \<open>\<open>GET /\<close>: list alerts\<close>

text \<open>
  \<open>req.query\<close>: the filters are texts. \<open>page\<close> and \<open>limit\<close> are absent, and then the
  numbers 1 and 20, or texts; a text is modelled by the natural number it is the decimal
  text of (\<open>Some 20\<close> is the text \<open>"20"\<close>). Other texts are outside the model.
\<close>

record alerts_query =
  q_status :: "string option"
  q_type :: "string option"
  q_severity :: "string option"
  q_page :: "nat option"
  q_limit :: "nat option"

text \<open>
  \<open>from + limit\<close> when \<open>limit\<close> is a text: the decimal text of \<open>from\<close> followed by the
  text, read back as a number by the subtraction that follows.
\<close>

definition plus_text :: "int \<Rightarrow> nat \<Rightarrow> int" where
  "plus_text n t =
     (if n < 0 then - (\<bar>n\<bar> * 10 ^ length (decimal t) + int t)
      else n * 10 ^ length (decimal t) + int t)"

definition page_number :: "nat option \<Rightarrow> int" where
  "page_number p = (case p of None \<Rightarrow> 1 | Some n \<Rightarrow> int n)"

definition limit_number :: "nat option \<Rightarrow> int" where
  "limit_number l = (case l of None \<Rightarrow> 20 | Some n \<Rightarrow> int n)"

definition range_from :: "alerts_query \<Rightarrow> int" where
  "range_from q = (page_number (q_page q) - 1) * limit_number (q_limit q)"

definition range_to :: "alerts_query \<Rightarrow> int" where
  "range_to q =
     (case q_limit q of
        None \<Rightarrow> range_from q + 20 - 1
      | Some t \<Rightarrow> plus_text (range_from q) t - 1)"

text \<open>The \<open>.eq\<close> filters the handler adds: the scope of a tourist, then the truthy filters.\<close>

definition query_matches :: "user \<Rightarrow> alerts_query \<Rightarrow> alert \<Rightarrow> bool" where
  "query_matches usr q a =
     ((if u_role usr = ''tourist'' then al_tourist_id a = u_id usr else True) \<and>
      (if truthy_text (q_status q) then al_status a = q_status q else True) \<and>
      (if truthy_text (q_type q) then al_type a = the (q_type q) else True) \<and>
      (if truthy_text (q_severity q) then al_severity a = the (q_severity q) else True))"

text \<open>\<open>Math.ceil(total / limit)\<close>; \<open>None\<close> is \<open>NaN\<close> or an infinity, both \<open>null\<close> in JSON.\<close>

definition pages_of :: "nat \<Rightarrow> int \<Rightarrow> int option" where
  "pages_of n k = (if k = 0 then None else Some \<lceil>real n / real_of_int k\<rceil>)"

definition get_alerts ::
  "fault option \<Rightarrow> user \<Rightarrow> alerts_query \<Rightarrow> db \<Rightarrow> response \<times> db \<times> string list" where
  "get_alerts f usr q d =
     (case select_alerts f False (query_matches usr q) (range_from q) (range_to q) d of
        Inl _ \<Rightarrow> ((500, Error ''Failed to get alerts''), d, [''Get alerts error:''])
      | Inr (QError c m) \<Rightarrow> ((500, Error m), d, [])
      | Inr (Data (rows, count)) \<Rightarrow>
          ((200, AlertList rows
                   \<lparr>pg_page = page_number (q_page q),
                    pg_limit = limit_number (q_limit q),
                    pg_total = Some (case count of None \<Rightarrow> 0 | Some c \<Rightarrow> c),
                    pg_pages = pages_of (case count of None \<Rightarrow> 0 | Some c \<Rightarrow> c)
                                 (limit_number (q_limit q))\<rparr>),
           d, []))"

subsection \<open>\<open>PUT /:alertId/status\<close>\<close>

record status_body =
  sb_status :: "string option"
  sb_notes :: "string option"

record status_faults =
  sf_fetch :: "fault option"
  sf_update :: "fault option"

definition validStatuses :: "string list" where
  "validStatuses = [''active'', ''acknowledged'', ''resolved'', ''false_alarm'']"

text \<open>
  \<open>existingAlert.responses || []\<close> as it is spread by \<open>[...currentResponses, newResponse]\<close>:
  \<open>null\<close> and the empty text are falsy, an array gives its elements, a text its
  characters.
\<close>

fun currentResponses :: "responses_column \<Rightarrow> response_item list" where
  "currentResponses RNull = []"
| "currentResponses (RArray xs) = xs"
| "currentResponses (RText s) = map RChar s"

definition newResponse :: "user \<Rightarrow> string \<Rightarrow> string option \<Rightarrow> timestamp \<Rightarrow> response_entry" where
  "newResponse usr status_text notes now =
     \<lparr>r_responder_id = u_id usr,
      r_action = ''Status changed to '' @ status_text,
      r_timestamp = now,
      r_notes = (if truthy_text notes then the notes else [])\<rparr>"

text \<open>The block that prepares \<open>updateData\<close>, with the response record added.\<close>

definition route_updateData :: "user \<Rightarrow> status_body \<Rightarrow> timestamp \<Rightarrow> alert \<Rightarrow> update_data" where
  "route_updateData usr b now existingAlert =
     \<lparr>ud_status = sb_status b,
      ud_updated_at = now,
      ud_resolved_at = (if the (sb_status b) = ''resolved'' then Some now else None),
      ud_assigned_to =
        (if \<not> truthy_text (al_assigned_to existingAlert) \<and>
            u_role usr \<in> set [''police'', ''admin'', ''tourism_dept'']
         then Some (u_id usr) else None),
      ud_responses =
        RArray (currentResponses (al_responses existingAlert) @
                [REntry (newResponse usr (the (sb_status b)) (sb_notes b) now)])\<rparr>"

definition put_alert_status ::
  "status_faults \<Rightarrow> user \<Rightarrow> nat \<Rightarrow> status_body \<Rightarrow> timestamp \<Rightarrow> db
     \<Rightarrow> response \<times> db \<times> string list" where
  "put_alert_status sf usr alertId b now d =
     (if \<not> truthy_text (sb_status b) then ((400, Error ''Status is required''), d, [])
      else if the (sb_status b) \<notin> set validStatuses
      then ((400, Error (''Status must be one of: '' @ join '', '' validStatuses)), d, [])
      else
        (case select_alert (sf_fetch sf) alertId d of
           Inl _ \<Rightarrow> ((500, Error ''Failed to update alert''), d, [''Update alert error:''])
         | Inr (QError c m) \<Rightarrow> ((404, Error ''Alert not found''), d, [])
         | Inr (Data existingAlert) \<Rightarrow>
             if u_role usr = ''tourist'' \<and> al_tourist_id existingAlert \<noteq> u_id usr
             then ((403, Error ''Access denied''), d, [])
             else
               (case update_alert (sf_update sf) alertId
                       (route_updateData usr b now existingAlert) d of
                  Inl _ \<Rightarrow> ((500, Error ''Failed to update alert''), d, [''Update alert error:''])
                | Inr (QError c m, d') \<Rightarrow> ((500, Error m), d', [])
                | Inr (Data updatedAlert, d') \<Rightarrow> ((200, AlertUpdated updatedAlert), d', []))))"

section \<open>The alert controller\<close>

text \<open>
  \<open>controllers/alertController.js\<close> has its own \<open>getAlerts\<close> and \<open>updateAlertStatus\<close>.
  \<open>getAlerts\<close> differs from the route in what it reports: \<open>total: count\<close> and
  \<open>Math.ceil(count / limit)\<close>, where a \<open>null\<close> count is 0 in the division.
\<close>

definition getAlerts ::
  "fault option \<Rightarrow> user \<Rightarrow> alerts_query \<Rightarrow> db \<Rightarrow> response \<times> db \<times> string list" where
  "getAlerts f usr q d =
     (case select_alerts f False (query_matches usr q) (range_from q) (range_to q) d of
        Inl _ \<Rightarrow> ((500, Error ''Failed to get alerts''), d, [''Get alerts error:''])
      | Inr (QError c m) \<Rightarrow> ((500, Error m), d, [])
      | Inr (Data (rows, count)) \<Rightarrow>
          ((200, AlertList rows
                   \<lparr>pg_page = page_number (q_page q),
                    pg_limit = limit_number (q_limit q),
                    pg_total = count,
                    pg_pages = pages_of (case count of None \<Rightarrow> 0 | Some c \<Rightarrow> c)
                                 (limit_number (q_limit q))\<rparr>),
           d, []))"

text \<open>
  \<open>JSON.stringify\<close> of the array of responses, as text. A timestamp is written as its
  decimal number.
\<close>

definition hex_char :: "nat \<Rightarrow> char" where
  "hex_char n = ''0123456789abcdef'' ! n"

definition json_escape :: "char \<Rightarrow> string" where
  "json_escape c =
     (if c = CHR 0x22 then [CHR 0x5C, CHR 0x22]
      else if c = CHR 0x5C then [CHR 0x5C, CHR 0x5C]
      else if c = CHR 0x08 then [CHR 0x5C, CHR ''b'']
      else if c = CHR 0x09 then [CHR 0x5C, CHR ''t'']
      else if c = CHR 0x0A then [CHR 0x5C, CHR ''n'']
      else if c = CHR 0x0C then [CHR 0x5C, CHR ''f'']
      else if c = CHR 0x0D then [CHR 0x5C, CHR ''r'']
      else if (of_char c :: nat) < 32
      then [CHR 0x5C, CHR ''u'', CHR ''0'', CHR ''0'',
            hex_char (of_char c div 16), hex_char (of_char c mod 16)]
      else [c])"

definition json_string :: "string \<Rightarrow> string" where
  "json_string s = [CHR 0x22] @ concat (map json_escape s) @ [CHR 0x22]"

fun json_item :: "response_item \<Rightarrow> string" where
  "json_item (RChar c) = json_string [c]"
| "json_item (REntry r) =
     ''{'' @ json_string ''responder_id'' @ '':'' @ json_string (r_responder_id r) @ '','' @
     json_string ''action'' @ '':'' @ json_string (r_action r) @ '','' @
     json_string ''timestamp'' @ '':'' @ json_string (decimal (r_timestamp r)) @ '','' @
     json_string ''notes'' @ '':'' @ json_string (r_notes r) @ ''}''"

definition stringify_responses :: "response_item list \<Rightarrow> string" where
  "stringify_responses xs = ''['' @ join '','' (map json_item xs) @ '']''"

text \<open>
  \<open>updateAlertStatus\<close> does not look at \<open>status\<close> before it writes it. An absent
  \<open>status\<close> is \<open>undefined\<close>: it is left out of the update and reads \<open>undefined\<close> in the
  action text.
\<close>

definition controller_updateData ::
  "user \<Rightarrow> status_body \<Rightarrow> timestamp \<Rightarrow> alert \<Rightarrow> update_data" where
  "controller_updateData usr b now existingAlert =
     \<lparr>ud_status = sb_status b,
      ud_updated_at = now,
      ud_resolved_at = (if sb_status b = Some ''resolved'' then Some now else None),
      ud_assigned_to =
        (if \<not> truthy_text (al_assigned_to existingAlert) \<and>
            u_role usr \<in> set [''police'', ''admin'', ''tourism_dept'']
         then Some (u_id usr) else None),
      ud_responses =
        RText (stringify_responses
                 (currentResponses (al_responses existingAlert) @
                  [REntry (newResponse usr
                             (case sb_status b of None \<Rightarrow> ''undefined'' | Some s \<Rightarrow> s)
                             (sb_notes b) now)]))\<rparr>"

definition updateAlertStatus ::
  "status_faults \<Rightarrow> user \<Rightarrow> nat \<Rightarrow> status_body \<Rightarrow> timestamp \<Rightarrow> db
     \<Rightarrow> response \<times> db \<times> string list" where
  "updateAlertStatus sf usr alertId b now d =
     (case select_alert (sf_fetch sf) alertId d of
        Inl _ \<Rightarrow> ((500, Error ''Failed to update alert''), d, [''Update alert error:''])
      | Inr (QError c m) \<Rightarrow> ((404, Error ''Alert not found''), d, [])
      | Inr (Data existingAlert) \<Rightarrow>
          if u_role usr = ''tourist'' \<and> al_tourist_id existingAlert \<noteq> u_id usr
          then ((403, Error ''Access denied''), d, [])
          else
            (case update_alert (sf_update sf) alertId
                    (controller_updateData usr b now existingAlert) d of
               Inl _ \<Rightarrow> ((500, Error ''Failed to update alert''), d, [''Update alert error:''])
             | Inr (QError c m, d') \<Rightarrow> ((500, Error m), d', [])
             | Inr (Data updatedAlert, d') \<Rightarrow> ((200, AlertUpdated updatedAlert), d', [])))"

section \<open>Runs of the handlers and example inputs\<close>

text \<open>
  What the theorems below are stated with: readings of the store, runs of several
  calls, and the concrete stores, actors and requests at which the theorems are
  instantiated.
\<close>

definition history_of :: "db \<Rightarrow> user_id \<Rightarrow> location_entry list" where
  "history_of d uid =
     (case tourist_profiles d uid of
        None \<Rightarrow> []
      | Some p \<Rightarrow> (case tp_location_history p of None \<Rightarrow> [] | Some h \<Rightarrow> h))"

definition geofences_of :: "db \<Rightarrow> user_id \<Rightarrow> geofence list" where
  "geofences_of d uid =
     (case tourist_profiles d uid of
        None \<Rightarrow> []
      | Some p \<Rightarrow> (case tp_geofences p of None \<Rightarrow> [] | Some gs \<Rightarrow> gs))"




definition empty_db :: db where
  "empty_db = \<lparr>tourist_profiles = Map.empty, alerts = [], next_alert_id = 0\<rparr>"

definition tourist1 :: user where
  "tourist1 = \<lparr>u_id = ''u1'', u_role = ''tourist'', u_name = ''Asha''\<rparr>"
















text \<open>Requests for the examples of \<open>createGeofence\<close>.\<close>

definition no_geofence_faults :: geofence_faults where
  "no_geofence_faults = \<lparr>gff_fetch = None, gff_upsert = None\<rparr>"

definition negative_radius_body :: create_geofence_body where
  "negative_radius_body = \<lparr>cg_name = Some ''Cliff'', cg_latitude = Some 1, cg_longitude = Some 1,
                  cg_radius = Some (- 5), cg_type = Some ''danger''\<rparr>"

definition cliff_body :: create_geofence_body where
  "cliff_body = \<lparr>cg_name = Some ''Cliff'', cg_latitude = Some 1, cg_longitude = Some 1,
                  cg_radius = Some 500, cg_type = Some ''danger''\<rparr>"

text \<open>A location on the equator, and requests that carry it.\<close>

definition equator_location :: location where
  "equator_location = \<lparr>loc_latitude = Some 0, loc_longitude = Some 1, loc_address = None,
                         loc_accuracy = None\<rparr>"

definition equator_alert :: create_alert_body where
  "equator_alert = \<lparr>ca_type = Some ''missing'', ca_severity = None,
                      ca_location = Some equator_location, ca_message = None,
                      ca_additional_data = None\<rparr>"

definition equator_panic :: panic_body where
  "equator_panic = \<lparr>pb_location = Some equator_location, pb_message = None\<rparr>"

text \<open>Actors, alerts and stores for the examples of the alert handlers.\<close>

definition police1 :: user where
  "police1 = \<lparr>u_id = ''p1'', u_role = ''police'', u_name = ''Ravi''\<rparr>"

definition police2 :: user where
  "police2 = \<lparr>u_id = ''p2'', u_role = ''police'', u_name = ''Meera''\<rparr>"

definition default_query :: alerts_query where
  "default_query = \<lparr>q_status = None, q_type = None, q_severity = None, q_page = None,
                      q_limit = None\<rparr>"

definition panic_alert :: alert where
  "panic_alert =
     new_alert ''u1'' ''panic'' ''critical''
       \<lparr>loc_latitude = Some 1, loc_longitude = Some 1, loc_address = None, loc_accuracy = None\<rparr>
       (Some ''PANIC BUTTON PRESSED - Immediate assistance required!'')
       [(''panic_button'', JBool True), (''timestamp'', JTime 5)]
     \<lparr>al_id := 0, al_created_at := 5\<rparr>"

definition other_alert :: alert where
  "other_alert = panic_alert\<lparr>al_id := 1, al_tourist_id := ''u2'', al_created_at := 6\<rparr>"

definition one_alert_db :: db where
  "one_alert_db = \<lparr>tourist_profiles = Map.empty, alerts = [panic_alert], next_alert_id = 1\<rparr>"

definition two_alerts_db :: db where
  "two_alerts_db = \<lparr>tourist_profiles = Map.empty, alerts = [panic_alert, other_alert],
                     next_alert_id = 2\<rparr>"

text \<open>
  A call of the status transition, through the route or through the controller, and the
  store after a sequence of calls.
\<close>

datatype transition_call =
    RouteCall status_faults user nat status_body timestamp
  | ControllerCall status_faults user nat status_body timestamp

fun transition :: "transition_call \<Rightarrow> db \<Rightarrow> db" where
  "transition (RouteCall sf usr alertId b now) d = fst (snd (put_alert_status sf usr alertId b now d))"
| "transition (ControllerCall sf usr alertId b now) d =
     fst (snd (updateAlertStatus sf usr alertId b now d))"

fun transitions :: "transition_call list \<Rightarrow> db \<Rightarrow> db" where
  "transitions [] d = d"
| "transitions (c # cs) d = transitions cs (transition c d)"

definition no_status_faults :: status_faults where
  "no_status_faults = \<lparr>sf_fetch = None, sf_update = None\<rparr>"

text \<open>Status requests and the alerts they lead to, for the examples.\<close>

definition ack_body :: status_body where
  "ack_body = \<lparr>sb_status = Some ''acknowledged'', sb_notes = None\<rparr>"

definition resolve_body :: status_body where
  "resolve_body = \<lparr>sb_status = Some ''resolved'', sb_notes = Some ''handled''\<rparr>"

definition bogus_body :: status_body where
  "bogus_body = \<lparr>sb_status = Some ''bogus'', sb_notes = None\<rparr>"

definition acknowledged_alert :: alert where
  "acknowledged_alert = apply_update (route_updateData police1 ack_body 7 panic_alert) panic_alert"

definition acknowledged_db :: db where
  "acknowledged_db = one_alert_db\<lparr>alerts := [acknowledged_alert]\<rparr>"

definition later_calls :: "transition_call list" where
  "later_calls = [RouteCall no_status_faults police2 0 resolve_body 8,
                  ControllerCall no_status_faults tourist1 0 ack_body 9]"

definition first_response :: response_entry where
  "first_response = newResponse police1 ''acknowledged'' None 7"

definition second_response :: response_entry where
  "second_response = newResponse police2 ''resolved'' (Some ''handled'') 8"

definition controller_acknowledged :: alert where
  "controller_acknowledged =
     apply_update (controller_updateData police1 ack_body 7 panic_alert) panic_alert"

definition controller_resolved :: alert where
  "controller_resolved =
     apply_update (controller_updateData police2 resolve_body 8 controller_acknowledged)
       controller_acknowledged"

section \<open>Properties of the double-precision arithmetic\<close>

subsection \<open>Rounding\<close>

text \<open>
  A multiple of the spacing of its binade is a double and rounds to itself; a number of
  magnitude at most a power of two rounds to a double of magnitude at most that power;
  a number from \<open>2 powi 1024\<close> on rounds to infinity.
\<close>

lemma round_even_of_int [simp]: "round_even (of_int n) = n"
  by (simp add: round_even_def)




lemma round_even_numeral [simp]: "round_even (numeral n) = numeral n"
  using round_even_of_int [of "numeral n"] by simp







lemma nearest_0 [simp]: "nearest 0 = Fin 0"
  by (simp add: nearest_def)












subsection \<open>The distance\<close>

lemma dmul_NaN [simp]: "dmul x NaN = NaN"
  by (cases x) simp_all

lemma dadd_NaN [simp]: "dadd x NaN = NaN"
  by (cases x) simp_all

lemma ddiv_NaN [simp]: "ddiv x NaN = NaN"
  by (cases x) simp_all

lemma Math_NaN [simp]:
  "Math_sin P NaN = NaN" "Math_cos P NaN = NaN" "Math_sqrt P NaN = NaN"
  "Math_atan2 P NaN x = NaN" "Math_atan2 P y NaN = NaN"
  "Math_cos P PInf = NaN" "Math_cos P NInf = NaN" "Math_sin P PInf = NaN" "Math_sin P NInf = NaN"
  by (simp_all add: Math_sin_def Math_cos_def Math_sqrt_def Math_atan2_def)

lemma dsub_NaN [simp]: "dsub x NaN = NaN"
  by (simp add: dsub_def)

lemma dmul_0 [simp]: "dmul (Fin 0) (Fin b) = Fin 0" "dmul (Fin a) (Fin 0) = Fin 0"
  by simp_all


lemma number_0: "number 0 = Fin 0"
  by (simp add: number_def)















section \<open>Properties of the tourist controller\<close>

subsection \<open>The location history\<close>








lemma history_of_profiles:
  "tourist_profiles d' = tourist_profiles d \<Longrightarrow> history_of d' uid = history_of d uid"
  by (simp add: history_of_def)











subsection \<open>The geofence check\<close>



























subsection \<open>Creating a geofence\<close>

lemma upsert_geofences_cases:
  "upsert_geofences f uid gs now d = Inl () \<or>
   (\<exists>c m. upsert_geofences f uid gs now d = Inr (QError c m, d)) \<or>
   (\<exists>p. upsert_geofences f uid gs now d
          = Inr (Data p, d\<lparr>tourist_profiles := (tourist_profiles d)(uid \<mapsto> p)\<rparr>)
        \<and> tp_geofences p = Some gs
        \<and> tp_location_history p = (case tourist_profiles d uid of None \<Rightarrow> None
                                     | Some p0 \<Rightarrow> tp_location_history p0))"
  by (cases "(f, uid, gs, now, d)" rule: upsert_geofences.cases)
     (auto simp: Let_def split: option.splits)

lemma createGeofence_invalid:
  "\<not> truthy_text (cg_name b) \<or> \<not> truthy_number (cg_latitude b) \<or>
   \<not> truthy_number (cg_longitude b) \<or> \<not> truthy_number (cg_radius b) \<or>
   \<not> truthy_text (cg_type b) \<Longrightarrow>
     createGeofence gf usr b now d
       = ((400, Error ''Name, coordinates, radius, and type are required''), d, [])"
  unfolding createGeofence_def by (simp only: if_True if_False not_True_eq_False not_False_eq_True not_not)

lemma createGeofence_bad_type:
  "\<not> (\<not> truthy_text (cg_name b) \<or> \<not> truthy_number (cg_latitude b) \<or>
   \<not> truthy_number (cg_longitude b) \<or> \<not> truthy_number (cg_radius b) \<or>
   \<not> truthy_text (cg_type b)) \<Longrightarrow> the (cg_type b) \<notin> set [''safe'', ''warning'', ''danger''] \<Longrightarrow>
     createGeofence gf usr b now d
       = ((400, Error ''Type must be safe, warning, or danger''), d, [])"
  unfolding createGeofence_def by (simp only: if_True if_False not_True_eq_False not_False_eq_True not_not)

lemma createGeofence_valid:
  assumes "\<not> (\<not> truthy_text (cg_name b) \<or> \<not> truthy_number (cg_latitude b) \<or>
   \<not> truthy_number (cg_longitude b) \<or> \<not> truthy_number (cg_radius b) \<or>
   \<not> truthy_text (cg_type b))" "\<not> the (cg_type b) \<notin> set [''safe'', ''warning'', ''danger'']"
  shows "createGeofence gf usr b now d =
        (case select_profile (gff_fetch gf) (u_id usr) d of
           Inl _ \<Rightarrow> ((500, Error ''Failed to create geofence''), d, [''Create geofence error:''])
         | Inr fetched \<Rightarrow>
             if error_code fetched \<noteq> None \<and> error_code fetched \<noteq> Some ''PGRST116''
             then ((500, Error (error_message fetched)), d, [])
             else
               (case upsert_geofences (gff_upsert gf) (u_id usr)
                       ((case fetched of
                        Data profile \<Rightarrow> (case tp_geofences profile of None \<Rightarrow> [] | Some gs \<Rightarrow> gs)
                      | QError _ _ \<Rightarrow> []) @ [newGeofence b now None]) now d of
                     Inl _ \<Rightarrow>
                       ((500, Error ''Failed to create geofence''), d, [''Create geofence error:''])
                   | Inr (QError c m, d') \<Rightarrow> ((500, Error m), d', [])
                   | Inr (Data updatedProfile, d') \<Rightarrow>
                       ((201, GeofenceCreated (newGeofence b now None)), d', [])))"
  unfolding createGeofence_def Let_def using assms by (simp only: if_True if_False not_True_eq_False not_False_eq_True not_not)

lemma createGeofence_201:
  assumes "createGeofence gf usr b now d = ((201, body), d', lg)"
  shows "truthy_text (cg_name b)" "truthy_number (cg_latitude b)" "truthy_number (cg_longitude b)"
        "truthy_number (cg_radius b)" "truthy_text (cg_type b)"
        "the (cg_type b) \<in> set [''safe'', ''warning'', ''danger'']"
        "body = GeofenceCreated (newGeofence b now None)"
        "\<exists>gs. geofences_of d' (u_id usr) = gs @ [newGeofence b now None] \<and>
              (gff_fetch gf = None \<longrightarrow> gs = geofences_of d (u_id usr))"
proof -
  have v: "\<not> (\<not> truthy_text (cg_name b) \<or> \<not> truthy_number (cg_latitude b) \<or>
         \<not> truthy_number (cg_longitude b) \<or> \<not> truthy_number (cg_radius b) \<or>
         \<not> truthy_text (cg_type b))"
  proof
    assume "\<not> truthy_text (cg_name b) \<or> \<not> truthy_number (cg_latitude b) \<or>
         \<not> truthy_number (cg_longitude b) \<or> \<not> truthy_number (cg_radius b) \<or>
         \<not> truthy_text (cg_type b)"
    from createGeofence_invalid [OF this, of gf usr now d] assms show False by simp
  qed
  then show "truthy_text (cg_name b)" "truthy_number (cg_latitude b)" "truthy_number (cg_longitude b)"
        "truthy_number (cg_radius b)" "truthy_text (cg_type b)" by blast+
  have t: "\<not> the (cg_type b) \<notin> set [''safe'', ''warning'', ''danger'']"
  proof
    assume "the (cg_type b) \<notin> set [''safe'', ''warning'', ''danger'']"
    from createGeofence_bad_type [OF v this, of gf usr now d] assms show False by simp
  qed
  then show "the (cg_type b) \<in> set [''safe'', ''warning'', ''danger'']" by blast
  note eq = createGeofence_valid [OF v t, of gf usr now d]
  obtain fetched where f: "select_profile (gff_fetch gf) (u_id usr) d = Inr fetched"
    using assms unfolding eq
    by (cases "select_profile (gff_fetch gf) (u_id usr) d") simp_all
  have ec: "\<not> (error_code fetched \<noteq> None \<and> error_code fetched \<noteq> Some ''PGRST116'')"
  proof
    assume "error_code fetched \<noteq> None \<and> error_code fetched \<noteq> Some ''PGRST116''"
    then show False using assms f unfolding eq by simp
  qed
  define cur where "cur = (case fetched of
                        Data profile \<Rightarrow> (case tp_geofences profile of None \<Rightarrow> [] | Some gs \<Rightarrow> gs)
                      | QError _ _ \<Rightarrow> [])"
  have cur: "gff_fetch gf = None \<longrightarrow> cur = geofences_of d (u_id usr)"
    using f by (auto simp: cur_def geofences_of_def split: option.splits)
  have eq2: "(case upsert_geofences (gff_upsert gf) (u_id usr) (cur @ [newGeofence b now None]) now d of
                     Inl _ \<Rightarrow>
                       ((500, Error ''Failed to create geofence''), d, [''Create geofence error:''])
                   | Inr (QError c m, d') \<Rightarrow> ((500, Error m), d', [])
                   | Inr (Data updatedProfile, d') \<Rightarrow>
                       ((201, GeofenceCreated (newGeofence b now None)), d', []))
             = ((201 :: nat, body), d', lg)"
    using assms unfolding eq f sum.case if_not_P [OF ec] cur_def .
  from upsert_geofences_cases
    [of "gff_upsert gf" "u_id usr" "cur @ [newGeofence b now None]" now d]
  consider "upsert_geofences (gff_upsert gf) (u_id usr) (cur @ [newGeofence b now None]) now d = Inl ()"
    | c m where "upsert_geofences (gff_upsert gf) (u_id usr) (cur @ [newGeofence b now None]) now d
                   = Inr (QError c m, d)"
    | p where "upsert_geofences (gff_upsert gf) (u_id usr) (cur @ [newGeofence b now None]) now d
          = Inr (Data p, d\<lparr>tourist_profiles := (tourist_profiles d)(u_id usr \<mapsto> p)\<rparr>)"
        "tp_geofences p = Some (cur @ [newGeofence b now None])"
    by blast
  then have res: "body = GeofenceCreated (newGeofence b now None) \<and>
             geofences_of d' (u_id usr) = cur @ [newGeofence b now None]"
  proof cases
    case 1
    with eq2 show ?thesis by simp
  next
    case 2
    with eq2 show ?thesis by simp
  next
    case 3
    with eq2 have "body = GeofenceCreated (newGeofence b now None)"
      and "d' = d\<lparr>tourist_profiles := (tourist_profiles d)(u_id usr \<mapsto> p)\<rparr>" by simp_all
    with 3(2) show ?thesis by (simp add: geofences_of_def)
  qed
  then show "body = GeofenceCreated (newGeofence b now None)" by (rule conjunct1)
  from res have "geofences_of d' (u_id usr) = cur @ [newGeofence b now None] \<and>
              (gff_fetch gf = None \<longrightarrow> cur = geofences_of d (u_id usr))"
    using cur by simp
  then show "\<exists>gs. geofences_of d' (u_id usr) = gs @ [newGeofence b now None] \<and>
              (gff_fetch gf = None \<longrightarrow> gs = geofences_of d (u_id usr))"
    by (rule exI)
qed

lemma parseInt_examples: "parseInt (- 5) = - 5" "parseInt 500 = 500" "parseInt (1 / 2) = 0"
  by (simp_all add: parseInt_def)

lemma post_geofences_201:
  assumes "post_geofences usr b now d = ((201, body), d', lg)"
  shows "truthy_number (cg_radius b)"
        "the (cg_type b) \<in> set [''safe'', ''warning'', ''danger'']"
        "body = GeofenceCreated (newGeofence b now (Some (u_name usr)))" "d' = d"
  using assms unfolding post_geofences_def by (simp_all split: if_splits)

text \<open>
  Claim C9, as amended. A geofence that \<open>createGeofence\<close> stores (and one that the
  route handler returns) has a type among \<open>safe\<close>, \<open>warning\<close> and \<open>danger\<close>, is active,
  and its radius is \<open>parseInt\<close> of the requested radius, which was not zero; the new
  geofence is appended to the geofences read for the user. Nothing makes the radius
  positive. Creation is answered with 400, and the store is left as it was, when name,
  latitude, longitude, radius or type is missing or the type is not one of the three.
\<close>

theorem createGeofence_stores:
  "(createGeofence gf usr b now d = ((201, body), d', lg) \<longrightarrow>
      (\<exists>r gs. cg_radius b = Some r \<and> r \<noteq> 0 \<and>
         body = GeofenceCreated (newGeofence b now None) \<and>
         geofences_of d' (u_id usr) = gs @ [newGeofence b now None] \<and>
         (gff_fetch gf = None \<longrightarrow> gs = geofences_of d (u_id usr)) \<and>
         gf_radius (newGeofence b now None) = parseInt r \<and>
         gf_type (newGeofence b now None) \<in> {''safe'', ''warning'', ''danger''} \<and>
         gf_is_active (newGeofence b now None))) \<and>
   (post_geofences usr b now d = ((201, body), d', lg) \<longrightarrow>
      (\<exists>r. cg_radius b = Some r \<and> r \<noteq> 0 \<and> d' = d \<and>
         body = GeofenceCreated (newGeofence b now (Some (u_name usr))) \<and>
         gf_radius (newGeofence b now (Some (u_name usr))) = parseInt r \<and>
         gf_type (newGeofence b now (Some (u_name usr))) \<in> {''safe'', ''warning'', ''danger''})) \<and>
   (cg_name b = None \<or> cg_latitude b = None \<or> cg_longitude b = None \<or> cg_radius b = None \<or>
    cg_type b = None \<or> the (cg_type b) \<notin> {''safe'', ''warning'', ''danger''} \<longrightarrow>
      fst (fst (createGeofence gf usr b now d)) = 400 \<and>
      fst (snd (createGeofence gf usr b now d)) = d \<and>
      fst (fst (post_geofences usr b now d)) = 400)"
proof (intro conjI impI)
  assume a: "createGeofence gf usr b now d = ((201, body), d', lg)"
  note c = createGeofence_201 [OF a]
  from c(4) obtain r where r: "cg_radius b = Some r" "r \<noteq> 0"
    by (cases "cg_radius b") simp_all
  from c(8) obtain gs where gs: "geofences_of d' (u_id usr) = gs @ [newGeofence b now None]"
      "gff_fetch gf = None \<longrightarrow> gs = geofences_of d (u_id usr)"
    by (elim exE conjE) (rule that)
  have "gf_radius (newGeofence b now None) = parseInt r"
       "gf_type (newGeofence b now None) \<in> {''safe'', ''warning'', ''danger''}"
       "gf_is_active (newGeofence b now None)"
    using r c(6) by (simp_all add: newGeofence_def)
  with r gs c(7)
  show "\<exists>r gs. cg_radius b = Some r \<and> r \<noteq> 0 \<and>
         body = GeofenceCreated (newGeofence b now None) \<and>
         geofences_of d' (u_id usr) = gs @ [newGeofence b now None] \<and>
         (gff_fetch gf = None \<longrightarrow> gs = geofences_of d (u_id usr)) \<and>
         gf_radius (newGeofence b now None) = parseInt r \<and>
         gf_type (newGeofence b now None) \<in> {''safe'', ''warning'', ''danger''} \<and>
         gf_is_active (newGeofence b now None)"
    by (intro exI [of _ r] exI [of _ gs]) simp
next
  assume a: "post_geofences usr b now d = ((201, body), d', lg)"
  note c = post_geofences_201 [OF a]
  from c(1) obtain r where r: "cg_radius b = Some r" "r \<noteq> 0"
    by (cases "cg_radius b") simp_all
  have "gf_radius (newGeofence b now (Some (u_name usr))) = parseInt r"
       "gf_type (newGeofence b now (Some (u_name usr))) \<in> {''safe'', ''warning'', ''danger''}"
    using r c(2) by (simp_all add: newGeofence_def)
  with r c(3,4)
  show "\<exists>r. cg_radius b = Some r \<and> r \<noteq> 0 \<and> d' = d \<and>
         body = GeofenceCreated (newGeofence b now (Some (u_name usr))) \<and>
         gf_radius (newGeofence b now (Some (u_name usr))) = parseInt r \<and>
         gf_type (newGeofence b now (Some (u_name usr))) \<in> {''safe'', ''warning'', ''danger''}"
    by (intro exI [of _ r]) simp
next
  assume m: "cg_name b = None \<or> cg_latitude b = None \<or> cg_longitude b = None \<or> cg_radius b = None \<or>
    cg_type b = None \<or> the (cg_type b) \<notin> {''safe'', ''warning'', ''danger''}"
  have r: "createGeofence gf usr b now d
             = ((400, Error ''Name, coordinates, radius, and type are required''), d, []) \<or>
           createGeofence gf usr b now d
             = ((400, Error ''Type must be safe, warning, or danger''), d, [])"
  proof (cases "\<not> truthy_text (cg_name b) \<or> \<not> truthy_number (cg_latitude b) \<or>
   \<not> truthy_number (cg_longitude b) \<or> \<not> truthy_number (cg_radius b) \<or>
   \<not> truthy_text (cg_type b)")
    case True
    then show ?thesis by (simp add: createGeofence_invalid)
  next
    case False
    with m have "the (cg_type b) \<notin> set [''safe'', ''warning'', ''danger'']" by auto
    with False show ?thesis using createGeofence_bad_type [of b gf usr now d] by simp
  qed
  from r show "fst (fst (createGeofence gf usr b now d)) = 400" by auto
  from r show "fst (snd (createGeofence gf usr b now d)) = d" by auto
  from m show "fst (fst (post_geofences usr b now d)) = 400"
    unfolding post_geofences_def by auto
qed

text \<open>
  Claim C9 as stated fails: a request with radius -5 is answered with 201 and the
  stored geofence has radius -5.
\<close>

theorem createGeofence_radius_counterexample:
  "fst (fst (createGeofence no_geofence_faults tourist1 negative_radius_body 7 empty_db)) = 201 \<and>
   map gf_radius
     (geofences_of (fst (snd (createGeofence no_geofence_faults tourist1 negative_radius_body 7 empty_db)))
        (u_id tourist1)) = [- 5] \<and>
   \<not> list_all (\<lambda>g. 0 < gf_radius g)
     (geofences_of (fst (snd (createGeofence no_geofence_faults tourist1 negative_radius_body 7 empty_db)))
        (u_id tourist1))"
  by (simp add: createGeofence_def no_geofence_faults_def negative_radius_body_def empty_db_def
        tourist1_def geofences_of_def newGeofence_def parseInt_def Let_def)

text \<open>The amended statement at a request with radius 500, and at one with an unknown type.\<close>

theorem createGeofence_stores_witness:
  "fst (fst (createGeofence no_geofence_faults tourist1 cliff_body 7 empty_db)) = 201 \<and>
   geofences_of (fst (snd (createGeofence no_geofence_faults tourist1 cliff_body 7 empty_db))) ''u1''
     = [newGeofence cliff_body 7 None] \<and>
   gf_radius (newGeofence cliff_body 7 None) = 500 \<and>
   gf_type (newGeofence cliff_body 7 None) \<in> {''safe'', ''warning'', ''danger''} \<and>
   fst (fst (post_geofences tourist1 cliff_body 7 empty_db)) = 201 \<and>
   fst (fst (createGeofence no_geofence_faults tourist1 (cliff_body\<lparr>cg_type := Some ''cave''\<rparr>) 7
               empty_db)) = 400"
proof -
  let ?R = "createGeofence no_geofence_faults tourist1 cliff_body 7 empty_db"
  let ?P = "post_geofences tourist1 cliff_body 7 empty_db"
  let ?g = "newGeofence cliff_body 7 None"
  have b: "fst (fst ?R) = 201"
    by (simp add: createGeofence_def no_geofence_faults_def cliff_body_def empty_db_def tourist1_def
          Let_def)
  then have R: "?R = ((201, snd (fst ?R)), fst (snd ?R), snd (snd ?R))"
    by (simp add: prod_eq_iff)
  have c: "fst (fst ?P) = 201"
    by (simp add: post_geofences_def cliff_body_def)
  then have P: "?P = ((201, snd (fst ?P)), fst (snd ?P), snd (snd ?P))"
    by (simp add: prod_eq_iff)
  have e: "geofences_of empty_db ''u1'' = []" by (simp add: geofences_of_def empty_db_def)
  have u: "u_id tourist1 = ''u1''" by (simp add: tourist1_def)
  have n: "gff_fetch no_geofence_faults = None" by (simp add: no_geofence_faults_def)
  have r: "cg_radius cliff_body = Some 500" by (simp add: cliff_body_def)
  have t: "the (cg_type (cliff_body\<lparr>cg_type := Some ''cave''\<rparr>)) \<notin> {''safe'', ''warning'', ''danger''}"
    by simp
  note c1 = createGeofence_stores
      [where gf = no_geofence_faults and usr = tourist1 and b = cliff_body and now = 7
         and d = empty_db and body = "snd (fst ?R)" and d' = "fst (snd ?R)" and lg = "snd (snd ?R)"]
  note c2 = createGeofence_stores
      [where gf = no_geofence_faults and usr = tourist1 and b = cliff_body and now = 7
         and d = empty_db and body = "snd (fst ?P)" and d' = "fst (snd ?P)" and lg = "snd (snd ?P)"]
  note c3 = createGeofence_stores
      [where gf = no_geofence_faults and usr = tourist1 and b = "cliff_body\<lparr>cg_type := Some ''cave''\<rparr>"
         and now = 7 and d = empty_db]
  from c1 [THEN conjunct1, THEN mp, OF R] obtain x gs where
      x: "cg_radius cliff_body = Some x" and g1: "geofences_of (fst (snd ?R)) (u_id tourist1) = gs @ [?g]"
      and g2: "gff_fetch no_geofence_faults = None \<longrightarrow> gs = geofences_of empty_db (u_id tourist1)"
      and g3: "gf_radius ?g = parseInt x" and g4: "gf_type ?g \<in> {''safe'', ''warning'', ''danger''}"
    by (elim exE conjE) (rule that)
  from x r have x500: "x = 500" by simp
  from g2 n e u have "gs = []" by simp
  with g1 u have a1: "geofences_of (fst (snd ?R)) ''u1'' = [?g]" by simp
  from g3 x500 have a2: "gf_radius ?g = 500" by (simp add: parseInt_examples)
  have t': "cg_name (cliff_body\<lparr>cg_type := Some ''cave''\<rparr>) = None \<or>
            cg_latitude (cliff_body\<lparr>cg_type := Some ''cave''\<rparr>) = None \<or>
            cg_longitude (cliff_body\<lparr>cg_type := Some ''cave''\<rparr>) = None \<or>
            cg_radius (cliff_body\<lparr>cg_type := Some ''cave''\<rparr>) = None \<or>
            cg_type (cliff_body\<lparr>cg_type := Some ''cave''\<rparr>) = None \<or>
            the (cg_type (cliff_body\<lparr>cg_type := Some ''cave''\<rparr>)) \<notin> {''safe'', ''warning'', ''danger''}"
    using t by (intro disjI2)
  have d: "fst (fst (createGeofence no_geofence_faults tourist1 (cliff_body\<lparr>cg_type := Some ''cave''\<rparr>) 7
               empty_db)) = 400"
    using c3 [THEN conjunct2, THEN conjunct2, THEN mp, OF t'] by (rule conjunct1)
  from c2 [THEN conjunct2, THEN conjunct1, THEN mp, OF P] have True by simp
  show ?thesis using a1 a2 g4 b c d by (intro conjI)
qed

text \<open>
  Claim C10. A request to create an alert, or a panic alert, whose location has latitude
  0 or longitude 0, and a request to create a geofence with latitude 0, longitude 0 or
  radius 0, is answered with 400 and the message for missing fields, the store
  unchanged: the same answer as for the request without the field.
\<close>

theorem zero_coordinates_rejected:
  "(ca_location ab = Some loc \<and> (loc_latitude loc = Some 0 \<or> loc_longitude loc = Some 0) \<longrightarrow>
      post_alert f usr ab now d
        = ((400, Error ''Type and location (latitude, longitude) are required''), d, []) \<and>
      (loc_latitude loc = Some 0 \<longrightarrow>
         post_alert f usr ab now d
           = post_alert f usr (ab\<lparr>ca_location := Some (loc\<lparr>loc_latitude := None\<rparr>)\<rparr>) now d) \<and>
      (loc_longitude loc = Some 0 \<longrightarrow>
         post_alert f usr ab now d
           = post_alert f usr (ab\<lparr>ca_location := Some (loc\<lparr>loc_longitude := None\<rparr>)\<rparr>) now d)) \<and>
   (pb_location pb = Some loc \<and> (loc_latitude loc = Some 0 \<or> loc_longitude loc = Some 0) \<longrightarrow>
      post_panic f usr pb now d
        = ((400, Error ''Location with latitude and longitude required for panic alert''), d, []) \<and>
      (loc_latitude loc = Some 0 \<longrightarrow>
         post_panic f usr pb now d
           = post_panic f usr (pb\<lparr>pb_location := Some (loc\<lparr>loc_latitude := None\<rparr>)\<rparr>) now d) \<and>
      (loc_longitude loc = Some 0 \<longrightarrow>
         post_panic f usr pb now d
           = post_panic f usr (pb\<lparr>pb_location := Some (loc\<lparr>loc_longitude := None\<rparr>)\<rparr>) now d)) \<and>
   (cg_latitude gb = Some 0 \<or> cg_longitude gb = Some 0 \<or> cg_radius gb = Some 0 \<longrightarrow>
      createGeofence gf usr gb now d
        = ((400, Error ''Name, coordinates, radius, and type are required''), d, []) \<and>
      post_geofences usr gb now d
        = ((400, Error ''Name, coordinates, radius, and type are required''), d, []) \<and>
      (cg_latitude gb = Some 0 \<longrightarrow>
         createGeofence gf usr gb now d = createGeofence gf usr (gb\<lparr>cg_latitude := None\<rparr>) now d) \<and>
      (cg_longitude gb = Some 0 \<longrightarrow>
         createGeofence gf usr gb now d = createGeofence gf usr (gb\<lparr>cg_longitude := None\<rparr>) now d) \<and>
      (cg_radius gb = Some 0 \<longrightarrow>
         createGeofence gf usr gb now d = createGeofence gf usr (gb\<lparr>cg_radius := None\<rparr>) now d))"
proof (intro conjI impI)
  assume a: "ca_location ab = Some loc \<and> (loc_latitude loc = Some 0 \<or> loc_longitude loc = Some 0)"
  then have c: "\<not> truthy_text (ca_type ab) \<or> ca_location ab = None \<or>
         \<not> truthy_number (loc_latitude (the (ca_location ab))) \<or>
         \<not> truthy_number (loc_longitude (the (ca_location ab)))" by auto
  show r: "post_alert f usr ab now d
        = ((400, Error ''Type and location (latitude, longitude) are required''), d, [])"
    unfolding post_alert_def using c by (simp only: if_True)
  show "post_alert f usr ab now d
           = post_alert f usr (ab\<lparr>ca_location := Some (loc\<lparr>loc_latitude := None\<rparr>)\<rparr>) now d"
    unfolding r by (simp add: post_alert_def)
  show "post_alert f usr ab now d
           = post_alert f usr (ab\<lparr>ca_location := Some (loc\<lparr>loc_longitude := None\<rparr>)\<rparr>) now d"
    unfolding r by (simp add: post_alert_def)
next
  assume a: "pb_location pb = Some loc \<and> (loc_latitude loc = Some 0 \<or> loc_longitude loc = Some 0)"
  then have c: "pb_location pb = None \<or>
         \<not> truthy_number (loc_latitude (the (pb_location pb))) \<or>
         \<not> truthy_number (loc_longitude (the (pb_location pb)))" by auto
  show r: "post_panic f usr pb now d
        = ((400, Error ''Location with latitude and longitude required for panic alert''), d, [])"
    unfolding post_panic_def using c by (simp only: if_True)
  show "post_panic f usr pb now d
           = post_panic f usr (pb\<lparr>pb_location := Some (loc\<lparr>loc_latitude := None\<rparr>)\<rparr>) now d"
    unfolding r by (simp add: post_panic_def)
  show "post_panic f usr pb now d
           = post_panic f usr (pb\<lparr>pb_location := Some (loc\<lparr>loc_longitude := None\<rparr>)\<rparr>) now d"
    unfolding r by (simp add: post_panic_def)
next
  assume a: "cg_latitude gb = Some 0 \<or> cg_longitude gb = Some 0 \<or> cg_radius gb = Some 0"
  then have c: "\<not> truthy_text (cg_name gb) \<or> \<not> truthy_number (cg_latitude gb) \<or>
   \<not> truthy_number (cg_longitude gb) \<or> \<not> truthy_number (cg_radius gb) \<or>
   \<not> truthy_text (cg_type gb)" by auto
  show r: "createGeofence gf usr gb now d
        = ((400, Error ''Name, coordinates, radius, and type are required''), d, [])"
    using c by (rule createGeofence_invalid)
  show "post_geofences usr gb now d
        = ((400, Error ''Name, coordinates, radius, and type are required''), d, [])"
    unfolding post_geofences_def using c by (simp only: if_True)
  show "createGeofence gf usr gb now d = createGeofence gf usr (gb\<lparr>cg_latitude := None\<rparr>) now d"
    unfolding r by (simp add: createGeofence_invalid)
  show "createGeofence gf usr gb now d = createGeofence gf usr (gb\<lparr>cg_longitude := None\<rparr>) now d"
    unfolding r by (simp add: createGeofence_invalid)
  show "createGeofence gf usr gb now d = createGeofence gf usr (gb\<lparr>cg_radius := None\<rparr>) now d"
    unfolding r by (simp add: createGeofence_invalid)
qed

text \<open>
  The theorem at a location with latitude 0, a geofence with radius 0 and one with
  latitude 0; the same alert request with latitude 1 is answered with 201.
\<close>

theorem zero_coordinates_rejected_witness:
  "post_alert None tourist1 equator_alert 7 empty_db
     = ((400, Error ''Type and location (latitude, longitude) are required''), empty_db, []) \<and>
   post_alert None tourist1 equator_alert 7 empty_db
     = post_alert None tourist1
         (equator_alert\<lparr>ca_location := Some (equator_location\<lparr>loc_latitude := None\<rparr>)\<rparr>) 7 empty_db \<and>
   fst (fst (post_alert None tourist1
               (equator_alert\<lparr>ca_location := Some (equator_location\<lparr>loc_latitude := Some 1\<rparr>)\<rparr>)
               7 empty_db)) = 201 \<and>
   post_panic None tourist1 equator_panic 7 empty_db
     = ((400, Error ''Location with latitude and longitude required for panic alert''), empty_db, []) \<and>
   createGeofence no_geofence_faults tourist1 (cliff_body\<lparr>cg_radius := Some 0\<rparr>) 7 empty_db
     = ((400, Error ''Name, coordinates, radius, and type are required''), empty_db, []) \<and>
   post_geofences tourist1 (cliff_body\<lparr>cg_latitude := Some 0\<rparr>) 7 empty_db
     = ((400, Error ''Name, coordinates, radius, and type are required''), empty_db, [])"
proof -
  have h1: "ca_location equator_alert = Some equator_location \<and>
            (loc_latitude equator_location = Some 0 \<or> loc_longitude equator_location = Some 0)"
    by (simp add: equator_alert_def equator_location_def)
  have h2: "pb_location equator_panic = Some equator_location \<and>
            (loc_latitude equator_location = Some 0 \<or> loc_longitude equator_location = Some 0)"
    by (simp add: equator_panic_def equator_location_def)
  have h3: "cg_latitude (cliff_body\<lparr>cg_radius := Some 0\<rparr>) = Some 0 \<or>
            cg_longitude (cliff_body\<lparr>cg_radius := Some 0\<rparr>) = Some 0 \<or>
            cg_radius (cliff_body\<lparr>cg_radius := Some 0\<rparr>) = Some 0"
    by simp
  have h4: "cg_latitude (cliff_body\<lparr>cg_latitude := Some 0\<rparr>) = Some 0 \<or>
            cg_longitude (cliff_body\<lparr>cg_latitude := Some 0\<rparr>) = Some 0 \<or>
            cg_radius (cliff_body\<lparr>cg_latitude := Some 0\<rparr>) = Some 0"
    by simp
  have h5: "loc_latitude equator_location = Some 0" by (simp add: equator_location_def)
  note t1 = zero_coordinates_rejected
    [where ab = equator_alert and pb = equator_panic and loc = equator_location
       and gb = "cliff_body\<lparr>cg_radius := Some 0\<rparr>" and f = None and usr = tourist1 and now = 7
       and d = empty_db and gf = no_geofence_faults]
  note t2 = zero_coordinates_rejected
    [where ab = equator_alert and pb = equator_panic and loc = equator_location
       and gb = "cliff_body\<lparr>cg_latitude := Some 0\<rparr>" and f = None and usr = tourist1 and now = 7
       and d = empty_db and gf = no_geofence_faults]
  note a = t1 [THEN conjunct1, THEN mp, OF h1]
  note p = t1 [THEN conjunct2, THEN conjunct1, THEN mp, OF h2]
  note g = t1 [THEN conjunct2, THEN conjunct2, THEN mp, OF h3]
  note g' = t2 [THEN conjunct2, THEN conjunct2, THEN mp, OF h4]
  have c1: "post_alert None tourist1 equator_alert 7 empty_db
     = ((400, Error ''Type and location (latitude, longitude) are required''), empty_db, [])"
    using a by (rule conjunct1)
  have c2: "post_alert None tourist1 equator_alert 7 empty_db
     = post_alert None tourist1
         (equator_alert\<lparr>ca_location := Some (equator_location\<lparr>loc_latitude := None\<rparr>)\<rparr>) 7 empty_db"
    using a [THEN conjunct2, THEN conjunct1, THEN mp, OF h5] .
  have c3: "fst (fst (post_alert None tourist1
               (equator_alert\<lparr>ca_location := Some (equator_location\<lparr>loc_latitude := Some 1\<rparr>)\<rparr>)
               7 empty_db)) = 201"
    by (simp add: post_alert_def equator_alert_def equator_location_def validTypes_def Let_def)
  have c4: "post_panic None tourist1 equator_panic 7 empty_db
     = ((400, Error ''Location with latitude and longitude required for panic alert''), empty_db, [])"
    using p by (rule conjunct1)
  have c5: "createGeofence no_geofence_faults tourist1 (cliff_body\<lparr>cg_radius := Some 0\<rparr>) 7 empty_db
     = ((400, Error ''Name, coordinates, radius, and type are required''), empty_db, [])"
    using g by (rule conjunct1)
  have c6: "post_geofences tourist1 (cliff_body\<lparr>cg_latitude := Some 0\<rparr>) 7 empty_db
     = ((400, Error ''Name, coordinates, radius, and type are required''), empty_db, [])"
    using g' [THEN conjunct2] by (rule conjunct1)
  show ?thesis using c1 c2 c3 c4 c5 c6 by (intro conjI)
qed


section \<open>Properties of the alert handlers\<close>

subsection \<open>Listing\<close>

lemma select_alerts_rows:
  assumes "select_alerts f c m from to d = Inr (Data (rows, n))"
  shows "rows = take (nat (to - from + 1)) (drop (nat from) (filter m (order_created_at_desc (alerts d))))"
    and "0 \<le> from" and "from \<le> to" and "f = None"
  using assms
  by (cases "(f, c, m, from, to, d)" rule: select_alerts.cases; simp add: Let_def split: if_splits)+

lemma get_alerts_200:
  assumes "get_alerts f usr q d = ((200, AlertList rows pg), d', lg)"
  shows "\<exists>n. select_alerts f False (query_matches usr q) (range_from q) (range_to q) d
               = Inr (Data (rows, n))"
  using assms unfolding get_alerts_def
  by (simp split: sum.splits query_result.splits prod.splits)

lemma getAlerts_200:
  assumes "getAlerts f usr q d = ((200, AlertList rows pg), d', lg)"
  shows "\<exists>n. select_alerts f False (query_matches usr q) (range_from q) (range_to q) d
               = Inr (Data (rows, n))"
  using assms unfolding getAlerts_def
  by (simp split: sum.splits query_result.splits prod.splits)

lemma rows_of_tourist:
  assumes "select_alerts f c (query_matches usr q) from to d = Inr (Data (rows, n))"
      and "u_role usr = ''tourist''" and "a \<in> set rows"
  shows "al_tourist_id a = u_id usr"
proof -
  from select_alerts_rows(1) [OF assms(1)] assms(3)
  have "a \<in> set (take (nat (to - from + 1)) (drop (nat from)
                 (filter (query_matches usr q) (order_created_at_desc (alerts d)))))"
    by simp
  then have "a \<in> set (filter (query_matches usr q) (order_created_at_desc (alerts d)))"
    by (meson in_set_dropD in_set_takeD)
  then have "query_matches usr q a" by simp
  with assms(2) show ?thesis by (simp add: query_matches_def)
qed

text \<open>
  Claim C2. When the actor's role is \<open>tourist\<close>, every alert that the listing returns,
  from the route or from the controller, has the actor's id as \<open>tourist_id\<close>, whatever the
  filters, the page and the limit. For any other role the condition on a row is that of
  the three filters alone. In both cases the rows returned are the range of the matching
  rows in descending order of creation, starting at the offset.
\<close>

theorem tourist_lists_own_alerts:
  "(u_role usr = ''tourist'' \<and> get_alerts f usr q d = ((200, AlertList rows pg), d', lg) \<longrightarrow>
      list_all (\<lambda>a. al_tourist_id a = u_id usr) rows) \<and>
   (u_role usr = ''tourist'' \<and> getAlerts f usr q d = ((200, AlertList rows pg), d', lg) \<longrightarrow>
      list_all (\<lambda>a. al_tourist_id a = u_id usr) rows) \<and>
   (u_role usr \<noteq> ''tourist'' \<longrightarrow>
      query_matches usr q a =
        ((if truthy_text (q_status q) then al_status a = q_status q else True) \<and>
         (if truthy_text (q_type q) then al_type a = the (q_type q) else True) \<and>
         (if truthy_text (q_severity q) then al_severity a = the (q_severity q) else True))) \<and>
   (get_alerts f usr q d = ((200, AlertList rows pg), d', lg) \<or>
    getAlerts f usr q d = ((200, AlertList rows pg), d', lg) \<longrightarrow>
      rows = take (nat (range_to q - range_from q + 1))
               (drop (nat (range_from q))
                  (filter (query_matches usr q) (order_created_at_desc (alerts d)))))"
proof (intro conjI impI)
  assume a: "u_role usr = ''tourist'' \<and> get_alerts f usr q d = ((200, AlertList rows pg), d', lg)"
  then obtain n where "select_alerts f False (query_matches usr q) (range_from q) (range_to q) d
               = Inr (Data (rows, n))"
    using get_alerts_200 by blast
  with a show "list_all (\<lambda>a. al_tourist_id a = u_id usr) rows"
    using rows_of_tourist unfolding list_all_iff by blast
next
  assume a: "u_role usr = ''tourist'' \<and> getAlerts f usr q d = ((200, AlertList rows pg), d', lg)"
  then obtain n where "select_alerts f False (query_matches usr q) (range_from q) (range_to q) d
               = Inr (Data (rows, n))"
    using getAlerts_200 by blast
  with a show "list_all (\<lambda>a. al_tourist_id a = u_id usr) rows"
    using rows_of_tourist unfolding list_all_iff by blast
next
  assume "u_role usr \<noteq> ''tourist''"
  then show "query_matches usr q a =
        ((if truthy_text (q_status q) then al_status a = q_status q else True) \<and>
         (if truthy_text (q_type q) then al_type a = the (q_type q) else True) \<and>
         (if truthy_text (q_severity q) then al_severity a = the (q_severity q) else True))"
    by (simp add: query_matches_def)
next
  assume "get_alerts f usr q d = ((200, AlertList rows pg), d', lg) \<or>
    getAlerts f usr q d = ((200, AlertList rows pg), d', lg)"
  then obtain n where "select_alerts f False (query_matches usr q) (range_from q) (range_to q) d
               = Inr (Data (rows, n))"
    using get_alerts_200 getAlerts_200 by blast
  then show "rows = take (nat (range_to q - range_from q + 1))
               (drop (nat (range_from q))
                  (filter (query_matches usr q) (order_created_at_desc (alerts d))))"
    by (rule select_alerts_rows(1))
qed

lemma order_two_alerts:
  "order_created_at_desc (alerts two_alerts_db) = [other_alert, panic_alert]"
  by (simp add: order_created_at_desc_def two_alerts_db_def other_alert_def panic_alert_def
        new_alert_def)

lemma default_range: "range_from default_query = 0" "range_to default_query = 19"
  by (simp_all add: range_from_def range_to_def default_query_def page_number_def limit_number_def)

lemma default_query_fields:
  "q_status default_query = None" "q_type default_query = None" "q_severity default_query = None"
  "q_page default_query = None" "q_limit default_query = None"
  by (simp_all add: default_query_def)

lemma get_alerts_two_tourist:
  "get_alerts None tourist1 default_query two_alerts_db
     = ((200, AlertList [panic_alert]
               \<lparr>pg_page = 1, pg_limit = 20, pg_total = Some 0, pg_pages = Some 0\<rparr>),
        two_alerts_db, [])"
  by (simp add: get_alerts_def default_range order_two_alerts query_matches_def tourist1_def
        default_query_fields page_number_def limit_number_def pages_of_def
        other_alert_def panic_alert_def new_alert_def)

lemma get_alerts_two_police:
  "get_alerts None police1 default_query two_alerts_db
     = ((200, AlertList [other_alert, panic_alert]
               \<lparr>pg_page = 1, pg_limit = 20, pg_total = Some 0, pg_pages = Some 0\<rparr>),
        two_alerts_db, [])"
  by (simp add: get_alerts_def default_range order_two_alerts query_matches_def police1_def
        default_query_fields page_number_def limit_number_def pages_of_def)

text \<open>
  The theorem at a store with an alert of tourist \<open>u1\<close> and one of tourist \<open>u2\<close>: the
  tourist is given the first only, the police actor both.
\<close>

theorem tourist_lists_own_alerts_witness:
  "u_role tourist1 = ''tourist'' \<and> u_role police1 \<noteq> ''tourist'' \<and>
   get_alerts None tourist1 default_query two_alerts_db
     = ((200, AlertList [panic_alert]
               \<lparr>pg_page = 1, pg_limit = 20, pg_total = Some 0, pg_pages = Some 0\<rparr>),
        two_alerts_db, []) \<and>
   list_all (\<lambda>a. al_tourist_id a = u_id tourist1) [panic_alert] \<and>
   al_tourist_id other_alert \<noteq> u_id tourist1 \<and>
   query_matches police1 default_query other_alert \<and>
   [other_alert, panic_alert]
     = take (nat (range_to default_query - range_from default_query + 1))
         (drop (nat (range_from default_query))
            (filter (query_matches police1 default_query)
               (order_created_at_desc (alerts two_alerts_db))))"
proof -
  have r1: "u_role tourist1 = ''tourist''" by (simp add: tourist1_def)
  have r2: "u_role police1 \<noteq> ''tourist''" by (simp add: police1_def)
  note t = tourist_lists_own_alerts
    [where usr = tourist1 and f = None and q = default_query and d = two_alerts_db
       and rows = "[panic_alert]" and d' = two_alerts_db and lg = "[]"
       and pg = "\<lparr>pg_page = 1, pg_limit = 20, pg_total = Some 0, pg_pages = Some 0\<rparr>"]
  note p = tourist_lists_own_alerts
    [where usr = police1 and f = None and q = default_query and d = two_alerts_db
       and rows = "[other_alert, panic_alert]" and d' = two_alerts_db and lg = "[]"
       and pg = "\<lparr>pg_page = 1, pg_limit = 20, pg_total = Some 0, pg_pages = Some 0\<rparr>"
       and a = other_alert]
  have c1: "list_all (\<lambda>a. al_tourist_id a = u_id tourist1) [panic_alert]"
    using t [THEN conjunct1, THEN mp, OF conjI [OF r1 get_alerts_two_tourist]] .
  have c2: "al_tourist_id other_alert \<noteq> u_id tourist1"
    by (simp add: other_alert_def tourist1_def)
  have "query_matches police1 default_query other_alert =
        ((if truthy_text (q_status default_query) then al_status other_alert = q_status default_query
          else True) \<and>
         (if truthy_text (q_type default_query) then al_type other_alert = the (q_type default_query)
          else True) \<and>
         (if truthy_text (q_severity default_query)
          then al_severity other_alert = the (q_severity default_query) else True))"
    using p [THEN conjunct2, THEN conjunct2, THEN conjunct1, THEN mp, OF r2] .
  then have c3: "query_matches police1 default_query other_alert"
    by (simp add: default_query_fields)
  have c4: "[other_alert, panic_alert]
     = take (nat (range_to default_query - range_from default_query + 1))
         (drop (nat (range_from default_query))
            (filter (query_matches police1 default_query)
               (order_created_at_desc (alerts two_alerts_db))))"
    using p [THEN conjunct2, THEN conjunct2, THEN conjunct2, THEN mp,
             OF disjI1 [OF get_alerts_two_police]] .
  show ?thesis using r1 r2 get_alerts_two_tourist c1 c2 c3 c4 by (intro conjI)
qed

text \<open>
  Claim C8 fails on the reported total. Neither handler asks the client for a count, so
  \<open>count\<close> is \<open>null\<close>: with two matching alerts, both returned, the route reports total
  0 and 0 pages, the controller total \<open>null\<close> and 0 pages.
\<close>

theorem listing_total_not_counted:
  "get_alerts None police1 default_query two_alerts_db
     = ((200, AlertList [other_alert, panic_alert]
               \<lparr>pg_page = 1, pg_limit = 20, pg_total = Some 0, pg_pages = Some 0\<rparr>),
        two_alerts_db, []) \<and>
   getAlerts None police1 default_query two_alerts_db
     = ((200, AlertList [other_alert, panic_alert]
               \<lparr>pg_page = 1, pg_limit = 20, pg_total = None, pg_pages = Some 0\<rparr>),
        two_alerts_db, []) \<and>
   length (filter (query_matches police1 default_query) (alerts two_alerts_db)) = 2"
proof -
  have "getAlerts None police1 default_query two_alerts_db
     = ((200, AlertList [other_alert, panic_alert]
               \<lparr>pg_page = 1, pg_limit = 20, pg_total = None, pg_pages = Some 0\<rparr>),
        two_alerts_db, [])"
    by (simp add: getAlerts_def default_range order_two_alerts query_matches_def police1_def
        default_query_fields page_number_def limit_number_def pages_of_def)
  moreover have "length (filter (query_matches police1 default_query) (alerts two_alerts_db)) = 2"
    by (simp add: query_matches_def police1_def default_query_fields two_alerts_db_def)
  ultimately show ?thesis using get_alerts_two_police by (intro conjI)
qed

text \<open>
  The range of page 2: rows 20 to 39 with the default limit, rows 20 to 2019 when the
  limit is the text \<open>"20"\<close>.
\<close>

lemma range_of_text_limit:
  "range_from (default_query\<lparr>q_page := Some 2, q_limit := Some 20\<rparr>) = 20"
  "range_to (default_query\<lparr>q_page := Some 2, q_limit := Some 20\<rparr>) = 2019"
  "range_to (default_query\<lparr>q_page := Some 2\<rparr>) = 39"
  by (simp_all add: range_from_def range_to_def page_number_def limit_number_def plus_text_def
        default_query_def decimal.simps [of 20] decimal.simps [of 2])

subsection \<open>Status transitions\<close>

lemma select_alert_Data:
  assumes "select_alert f alertId d = Inr (Data a)"
  shows "f = None" and "filter (\<lambda>x. al_id x = alertId) (alerts d) = [a]"
  using assms
  by (cases "(f, alertId, d)" rule: select_alert.cases; simp split: list.splits)+

lemma update_alert_Data:
  assumes "update_alert f alertId u d = Inr (Data a', d')"
  shows "\<exists>a. filter (\<lambda>x. al_id x = alertId) (alerts d) = [a] \<and> a' = apply_update u a \<and>
             d' = d\<lparr>alerts := map (\<lambda>x. if al_id x = alertId then apply_update u x else x) (alerts d)\<rparr>"
  using assms
  by (cases "(f, alertId, u, d)" rule: update_alert.cases; simp split: list.splits)

lemma update_alert_db:
  assumes "update_alert f alertId u d = Inr (r, d')"
  shows "d' = d \<or>
         d' = d\<lparr>alerts := map (\<lambda>x. if al_id x = alertId then apply_update u x else x) (alerts d)\<rparr>"
  using assms
  by (cases "(f, alertId, u, d)" rule: update_alert.cases; simp split: list.splits)

lemma filter_single_eq:
  assumes "filter P xs = [a]" and "x \<in> set xs" and "P x"
  shows "x = a"
proof -
  from assms(2,3) have "x \<in> set (filter P xs)" by simp
  with assms(1) show ?thesis by simp
qed

lemma put_alert_status_200:
  assumes "put_alert_status sf usr alertId b now d = ((200, body), d', lg)"
  shows "\<exists>a a'. select_alert (sf_fetch sf) alertId d = Inr (Data a) \<and>
           update_alert (sf_update sf) alertId (route_updateData usr b now a) d = Inr (Data a', d') \<and>
           body = AlertUpdated a' \<and> truthy_text (sb_status b) \<and>
           the (sb_status b) \<in> set validStatuses \<and>
           \<not> (u_role usr = ''tourist'' \<and> al_tourist_id a \<noteq> u_id usr)"
  using assms unfolding put_alert_status_def
  by (simp split: if_splits sum.splits query_result.splits prod.splits)

lemma updateAlertStatus_200:
  assumes "updateAlertStatus sf usr alertId b now d = ((200, body), d', lg)"
  shows "\<exists>a a'. select_alert (sf_fetch sf) alertId d = Inr (Data a) \<and>
           update_alert (sf_update sf) alertId (controller_updateData usr b now a) d
             = Inr (Data a', d') \<and>
           body = AlertUpdated a' \<and>
           \<not> (u_role usr = ''tourist'' \<and> al_tourist_id a \<noteq> u_id usr)"
  using assms unfolding updateAlertStatus_def
  by (simp split: if_splits sum.splits query_result.splits prod.splits)

lemma put_alert_status_db:
  "fst (snd (put_alert_status sf usr alertId b now d)) = d \<or>
   (\<exists>a. filter (\<lambda>x. al_id x = alertId) (alerts d) = [a] \<and>
      fst (snd (put_alert_status sf usr alertId b now d))
        = d\<lparr>alerts := map (\<lambda>x. if al_id x = alertId
                                then apply_update (route_updateData usr b now a) x else x)
                         (alerts d)\<rparr>)"
proof (cases "select_alert (sf_fetch sf) alertId d")
  case (Inl u)
  then show ?thesis by (simp add: put_alert_status_def)
next
  case (Inr res)
  show ?thesis
  proof (cases res)
    case (QError c m)
    with Inr show ?thesis by (simp add: put_alert_status_def)
  next
    case (Data a)
    note sel = select_alert_Data(2) [OF Inr [unfolded Data]]
    show ?thesis
    proof (cases "update_alert (sf_update sf) alertId (route_updateData usr b now a) d")
      case (Inl u)
      with Inr Data show ?thesis by (simp add: put_alert_status_def)
    next
      case (Inr rd)
      obtain r d1 where rd: "rd = (r, d1)" by (cases rd)
      from update_alert_db [OF Inr [unfolded rd]] sel
      have d1: "d1 = d \<or> (\<exists>a'. filter (\<lambda>x. al_id x = alertId) (alerts d) = [a'] \<and>
                  d1 = d\<lparr>alerts := map (\<lambda>x. if al_id x = alertId
                                then apply_update (route_updateData usr b now a') x else x)
                         (alerts d)\<rparr>)"
        by (elim disjE) (rule disjI1, assumption, rule disjI2, rule exI [of _ a], simp)
      have "fst (snd (put_alert_status sf usr alertId b now d)) = d \<or>
            fst (snd (put_alert_status sf usr alertId b now d)) = d1"
        using \<open>select_alert (sf_fetch sf) alertId d = Inr res\<close> Data Inr rd
        by (cases r) (simp_all add: put_alert_status_def)
      with d1 show ?thesis by (elim disjE) simp_all
    qed
  qed
qed

lemma updateAlertStatus_db:
  "fst (snd (updateAlertStatus sf usr alertId b now d)) = d \<or>
   (\<exists>a. filter (\<lambda>x. al_id x = alertId) (alerts d) = [a] \<and>
      fst (snd (updateAlertStatus sf usr alertId b now d))
        = d\<lparr>alerts := map (\<lambda>x. if al_id x = alertId
                                then apply_update (controller_updateData usr b now a) x else x)
                         (alerts d)\<rparr>)"
proof (cases "select_alert (sf_fetch sf) alertId d")
  case (Inl u)
  then show ?thesis by (simp add: updateAlertStatus_def)
next
  case (Inr res)
  show ?thesis
  proof (cases res)
    case (QError c m)
    with Inr show ?thesis by (simp add: updateAlertStatus_def)
  next
    case (Data a)
    note sel = select_alert_Data(2) [OF Inr [unfolded Data]]
    show ?thesis
    proof (cases "update_alert (sf_update sf) alertId (controller_updateData usr b now a) d")
      case (Inl u)
      with Inr Data show ?thesis by (simp add: updateAlertStatus_def)
    next
      case (Inr rd)
      obtain r d1 where rd: "rd = (r, d1)" by (cases rd)
      from update_alert_db [OF Inr [unfolded rd]] sel
      have d1: "d1 = d \<or> (\<exists>a'. filter (\<lambda>x. al_id x = alertId) (alerts d) = [a'] \<and>
                  d1 = d\<lparr>alerts := map (\<lambda>x. if al_id x = alertId
                                then apply_update (controller_updateData usr b now a') x else x)
                         (alerts d)\<rparr>)"
        by (elim disjE) (rule disjI1, assumption, rule disjI2, rule exI [of _ a], simp)
      have "fst (snd (updateAlertStatus sf usr alertId b now d)) = d \<or>
            fst (snd (updateAlertStatus sf usr alertId b now d)) = d1"
        using \<open>select_alert (sf_fetch sf) alertId d = Inr res\<close> Data Inr rd
        by (cases r) (simp_all add: updateAlertStatus_def)
      with d1 show ?thesis by (elim disjE) simp_all
    qed
  qed
qed

lemma apply_update_fields:
  "al_id (apply_update u a) = al_id a"
  "al_tourist_id (apply_update u a) = al_tourist_id a"
  "al_assigned_to (apply_update u a)
     = (case ud_assigned_to u of None \<Rightarrow> al_assigned_to a | Some i \<Rightarrow> Some i)"
  "al_responses (apply_update u a) = ud_responses u"
  "al_status (apply_update u a) = (case ud_status u of None \<Rightarrow> al_status a | Some s \<Rightarrow> Some s)"
  by (simp_all add: apply_update_def)

lemma updated_rows_preserve:
  assumes f: "filter (\<lambda>x. al_id x = alertId) xs = [a]"
      and u: "truthy_text (al_assigned_to a) \<longrightarrow> ud_assigned_to u = None"
      and i: "i < length xs"
  shows "al_id (map (\<lambda>x. if al_id x = alertId then apply_update u x else x) xs ! i) = al_id (xs ! i)"
    and "truthy_text (al_assigned_to (xs ! i)) \<longrightarrow>
           al_assigned_to (map (\<lambda>x. if al_id x = alertId then apply_update u x else x) xs ! i)
             = al_assigned_to (xs ! i)"
proof -
  show "al_id (map (\<lambda>x. if al_id x = alertId then apply_update u x else x) xs ! i) = al_id (xs ! i)"
    using i by (simp add: apply_update_fields)
  show "truthy_text (al_assigned_to (xs ! i)) \<longrightarrow>
           al_assigned_to (map (\<lambda>x. if al_id x = alertId then apply_update u x else x) xs ! i)
             = al_assigned_to (xs ! i)"
  proof (cases "al_id (xs ! i) = alertId")
    case True
    from i have "xs ! i \<in> set xs" by simp
    then have "xs ! i = a" using f True by (intro filter_single_eq [of "\<lambda>x. al_id x = alertId" xs a])
    with u i True show ?thesis by (simp add: apply_update_fields)
  next
    case False
    with i show ?thesis by simp
  qed
qed

lemma route_updateData_assigned:
  "truthy_text (al_assigned_to a) \<longrightarrow> ud_assigned_to (route_updateData usr b now a) = None"
  by (simp add: route_updateData_def)

lemma controller_updateData_assigned:
  "truthy_text (al_assigned_to a) \<longrightarrow> ud_assigned_to (controller_updateData usr b now a) = None"
  by (simp add: controller_updateData_def)

lemma transition_preserves:
  "length (alerts (transition c d)) = length (alerts d) \<and>
   (i < length (alerts d) \<longrightarrow>
      al_id (alerts (transition c d) ! i) = al_id (alerts d ! i) \<and>
      (truthy_text (al_assigned_to (alerts d ! i)) \<longrightarrow>
         al_assigned_to (alerts (transition c d) ! i) = al_assigned_to (alerts d ! i)))"
proof (cases c)
  case (RouteCall sf usr alertId b now)
  from put_alert_status_db [of sf usr alertId b now d]
  show ?thesis
  proof (elim disjE exE conjE)
    assume "fst (snd (put_alert_status sf usr alertId b now d)) = d"
    with RouteCall show ?thesis by simp
  next
    fix a
    assume f: "filter (\<lambda>x. al_id x = alertId) (alerts d) = [a]"
       and e: "fst (snd (put_alert_status sf usr alertId b now d))
        = d\<lparr>alerts := map (\<lambda>x. if al_id x = alertId
                                then apply_update (route_updateData usr b now a) x else x)
                         (alerts d)\<rparr>"
    note p = updated_rows_preserve [OF f route_updateData_assigned]
    show ?thesis
      unfolding RouteCall transition.simps e using p by simp
  qed
next
  case (ControllerCall sf usr alertId b now)
  from updateAlertStatus_db [of sf usr alertId b now d]
  show ?thesis
  proof (elim disjE exE conjE)
    assume "fst (snd (updateAlertStatus sf usr alertId b now d)) = d"
    with ControllerCall show ?thesis by simp
  next
    fix a
    assume f: "filter (\<lambda>x. al_id x = alertId) (alerts d) = [a]"
       and e: "fst (snd (updateAlertStatus sf usr alertId b now d))
        = d\<lparr>alerts := map (\<lambda>x. if al_id x = alertId
                                then apply_update (controller_updateData usr b now a) x else x)
                         (alerts d)\<rparr>"
    note p = updated_rows_preserve [OF f controller_updateData_assigned]
    show ?thesis
      unfolding ControllerCall transition.simps e using p by simp
  qed
qed

lemma transitions_preserve:
  "length (alerts (transitions cs d)) = length (alerts d) \<and>
   (i < length (alerts d) \<longrightarrow>
      al_id (alerts (transitions cs d) ! i) = al_id (alerts d ! i) \<and>
      (truthy_text (al_assigned_to (alerts d ! i)) \<longrightarrow>
         al_assigned_to (alerts (transitions cs d) ! i) = al_assigned_to (alerts d ! i)))"
proof (induction cs arbitrary: d)
  case Nil
  show ?case by simp
next
  case (Cons c cs)
  from transition_preserves [of c d i] Cons.IH [of "transition c d"]
  show ?case by simp
qed

lemma transition_200:
  assumes "put_alert_status sf usr alertId b now d = ((200, AlertUpdated a'), d', lg) \<or>
           updateAlertStatus sf usr alertId b now d = ((200, AlertUpdated a'), d', lg)"
  shows "\<exists>a u. filter (\<lambda>x. al_id x = alertId) (alerts d) = [a] \<and> a' = apply_update u a \<and>
           (u = route_updateData usr b now a \<or> u = controller_updateData usr b now a) \<and>
           alerts d' = map (\<lambda>x. if al_id x = alertId then apply_update u x else x) (alerts d)"
  using assms
proof
  assume "put_alert_status sf usr alertId b now d = ((200, AlertUpdated a'), d', lg)"
  from put_alert_status_200 [OF this] obtain a a2 where
    s: "select_alert (sf_fetch sf) alertId d = Inr (Data a)" and
    u: "update_alert (sf_update sf) alertId (route_updateData usr b now a) d = Inr (Data a2, d')" and
    b: "AlertUpdated a' = AlertUpdated a2"
    by (elim exE conjE) (rule that)
  from update_alert_Data [OF u] select_alert_Data(2) [OF s] b
  have "filter (\<lambda>x. al_id x = alertId) (alerts d) = [a] \<and>
        a' = apply_update (route_updateData usr b now a) a \<and>
        (route_updateData usr b now a = route_updateData usr b now a \<or>
         route_updateData usr b now a = controller_updateData usr b now a) \<and>
        alerts d' = map (\<lambda>x. if al_id x = alertId
                               then apply_update (route_updateData usr b now a) x else x) (alerts d)"
    by (elim exE conjE) simp
  then show ?thesis by (intro exI)
next
  assume "updateAlertStatus sf usr alertId b now d = ((200, AlertUpdated a'), d', lg)"
  from updateAlertStatus_200 [OF this] obtain a a2 where
    s: "select_alert (sf_fetch sf) alertId d = Inr (Data a)" and
    u: "update_alert (sf_update sf) alertId (controller_updateData usr b now a) d
          = Inr (Data a2, d')" and
    b: "AlertUpdated a' = AlertUpdated a2"
    by (elim exE conjE) (rule that)
  from update_alert_Data [OF u] select_alert_Data(2) [OF s] b
  have "filter (\<lambda>x. al_id x = alertId) (alerts d) = [a] \<and>
        a' = apply_update (controller_updateData usr b now a) a \<and>
        (controller_updateData usr b now a = route_updateData usr b now a \<or>
         controller_updateData usr b now a = controller_updateData usr b now a) \<and>
        alerts d' = map (\<lambda>x. if al_id x = alertId
                               then apply_update (controller_updateData usr b now a) x else x)
                      (alerts d)"
    by (elim exE conjE) simp
  then show ?thesis by (intro exI)
qed

text \<open>
  Claim C5. After a successful status transition, through the route or the controller,
  \<open>assigned_to\<close> of the alert is the actor's id when it was unset and the actor's role
  is \<open>police\<close>, \<open>admin\<close> or \<open>tourism_dept\<close>, and is what it was otherwise: a tourist never
  sets it and a set value is kept. Over any sequence of transition calls, by any actors
  and with any outcome, the alerts keep their positions and ids, and an alert whose
  \<open>assigned_to\<close> is set keeps it. (Set means truthy, as the handlers test it.)
\<close>

theorem assigned_to_set_once:
  "(put_alert_status sf usr alertId b now d = ((200, AlertUpdated a'), d', lg) \<or>
    updateAlertStatus sf usr alertId b now d = ((200, AlertUpdated a'), d', lg) \<longrightarrow>
      (\<exists>a. filter (\<lambda>x. al_id x = alertId) (alerts d) = [a] \<and>
         al_id a' = alertId \<and>
         list_all (\<lambda>x. al_id x \<noteq> alertId \<or> x = a') (alerts d') \<and>
         al_assigned_to a' =
           (if \<not> truthy_text (al_assigned_to a) \<and>
               u_role usr \<in> {''police'', ''admin'', ''tourism_dept''}
            then Some (u_id usr) else al_assigned_to a) \<and>
         (u_role usr = ''tourist'' \<longrightarrow> al_assigned_to a' = al_assigned_to a) \<and>
         (truthy_text (al_assigned_to a) \<longrightarrow> al_assigned_to a' = al_assigned_to a))) \<and>
   length (alerts (transitions cs d)) = length (alerts d) \<and>
   (i < length (alerts d) \<and> truthy_text (al_assigned_to (alerts d ! i)) \<longrightarrow>
      al_id (alerts (transitions cs d) ! i) = al_id (alerts d ! i) \<and>
      al_assigned_to (alerts (transitions cs d) ! i) = al_assigned_to (alerts d ! i))"
proof (intro conjI impI)
  assume "put_alert_status sf usr alertId b now d = ((200, AlertUpdated a'), d', lg) \<or>
    updateAlertStatus sf usr alertId b now d = ((200, AlertUpdated a'), d', lg)"
  from transition_200 [OF this] obtain a u where
    f: "filter (\<lambda>x. al_id x = alertId) (alerts d) = [a]" and a': "a' = apply_update u a" and
    u: "u = route_updateData usr b now a \<or> u = controller_updateData usr b now a" and
    d': "alerts d' = map (\<lambda>x. if al_id x = alertId then apply_update u x else x) (alerts d)"
    by (elim exE conjE) (rule that)
  from f have "a \<in> set (filter (\<lambda>x. al_id x = alertId) (alerts d))" by simp
  then have ida: "al_id a = alertId" by simp
  have ua: "ud_assigned_to u =
              (if \<not> truthy_text (al_assigned_to a) \<and>
                  u_role usr \<in> {''police'', ''admin'', ''tourism_dept''}
               then Some (u_id usr) else None)"
    using u by (elim disjE) (simp_all add: route_updateData_def controller_updateData_def)
  have as: "al_assigned_to a' =
           (if \<not> truthy_text (al_assigned_to a) \<and>
               u_role usr \<in> {''police'', ''admin'', ''tourism_dept''}
            then Some (u_id usr) else al_assigned_to a)"
    unfolding a' apply_update_fields ua by simp
  have rows: "list_all (\<lambda>x. al_id x \<noteq> alertId \<or> x = a') (alerts d')"
    unfolding d' list_all_iff a'
  proof
    fix y assume "y \<in> set (map (\<lambda>x. if al_id x = alertId then apply_update u x else x) (alerts d))"
    then obtain x where x: "x \<in> set (alerts d)"
      and y: "y = (if al_id x = alertId then apply_update u x else x)" by auto
    show "al_id y \<noteq> alertId \<or> y = apply_update u a"
    proof (cases "al_id x = alertId")
      case True
      with f x have "x = a" by (intro filter_single_eq [of "\<lambda>x. al_id x = alertId" "alerts d" a])
      with y True show ?thesis by simp
    next
      case False
      with y show ?thesis by simp
    qed
  qed
  have "al_id a' = alertId" unfolding a' apply_update_fields by (rule ida)
  moreover have "u_role usr = ''tourist'' \<longrightarrow> al_assigned_to a' = al_assigned_to a"
    unfolding as by simp
  moreover have "truthy_text (al_assigned_to a) \<longrightarrow> al_assigned_to a' = al_assigned_to a"
    unfolding as by simp
  ultimately
  have "filter (\<lambda>x. al_id x = alertId) (alerts d) = [a] \<and>
         al_id a' = alertId \<and>
         list_all (\<lambda>x. al_id x \<noteq> alertId \<or> x = a') (alerts d') \<and>
         al_assigned_to a' =
           (if \<not> truthy_text (al_assigned_to a) \<and>
               u_role usr \<in> {''police'', ''admin'', ''tourism_dept''}
            then Some (u_id usr) else al_assigned_to a) \<and>
         (u_role usr = ''tourist'' \<longrightarrow> al_assigned_to a' = al_assigned_to a) \<and>
         (truthy_text (al_assigned_to a) \<longrightarrow> al_assigned_to a' = al_assigned_to a)"
    using f rows as by (intro conjI)
  then show "\<exists>a. filter (\<lambda>x. al_id x = alertId) (alerts d) = [a] \<and>
         al_id a' = alertId \<and>
         list_all (\<lambda>x. al_id x \<noteq> alertId \<or> x = a') (alerts d') \<and>
         al_assigned_to a' =
           (if \<not> truthy_text (al_assigned_to a) \<and>
               u_role usr \<in> {''police'', ''admin'', ''tourism_dept''}
            then Some (u_id usr) else al_assigned_to a) \<and>
         (u_role usr = ''tourist'' \<longrightarrow> al_assigned_to a' = al_assigned_to a) \<and>
         (truthy_text (al_assigned_to a) \<longrightarrow> al_assigned_to a' = al_assigned_to a)"
    by (rule exI)
next
  show "length (alerts (transitions cs d)) = length (alerts d)"
    using transitions_preserve [of cs d i] by (rule conjunct1)
next
  assume a: "i < length (alerts d) \<and> truthy_text (al_assigned_to (alerts d ! i))"
  note t = transitions_preserve [of cs d i, THEN conjunct2, THEN mp, OF a [THEN conjunct1]]
  from t show "al_id (alerts (transitions cs d) ! i) = al_id (alerts d ! i)" by (rule conjunct1)
  from t [THEN conjunct2, THEN mp, OF a [THEN conjunct2]]
  show "al_assigned_to (alerts (transitions cs d) ! i) = al_assigned_to (alerts d ! i)" .
qed

lemma one_alert_selected:
  "select_alert None 0 one_alert_db = Inr (Data panic_alert)"
  by (simp add: one_alert_db_def panic_alert_def)

lemma panic_alert_fields:
  "al_id panic_alert = 0" "al_tourist_id panic_alert = ''u1''" "al_assigned_to panic_alert = None"
  "al_responses panic_alert = RNull" "al_status panic_alert = Some ''active''"
  by (simp_all add: panic_alert_def new_alert_def)

lemma put_acknowledge:
  "put_alert_status no_status_faults police1 0 ack_body 7 one_alert_db
     = ((200, AlertUpdated acknowledged_alert), acknowledged_db, [])"
  by (simp add: put_alert_status_def no_status_faults_def one_alert_selected ack_body_def
        validStatuses_def police1_def panic_alert_fields acknowledged_alert_def acknowledged_db_def
        one_alert_db_def)

text \<open>
  The theorem at an unassigned alert that a police actor acknowledges, followed by a
  transition of a second police actor and one of the tourist.
\<close>

theorem assigned_to_set_once_witness:
  "al_assigned_to panic_alert = None \<and>
   put_alert_status no_status_faults police1 0 ack_body 7 one_alert_db
     = ((200, AlertUpdated acknowledged_alert), acknowledged_db, []) \<and>
   al_assigned_to acknowledged_alert = Some ''p1'' \<and>
   alerts acknowledged_db ! 0 = acknowledged_alert \<and>
   al_assigned_to (alerts (transitions later_calls acknowledged_db) ! 0) = Some ''p1''"
proof -
  note t = assigned_to_set_once
    [where sf = no_status_faults and usr = police1 and alertId = 0 and b = ack_body and now = 7
       and d = one_alert_db and a' = acknowledged_alert and d' = acknowledged_db and lg = "[]"]
  note s = assigned_to_set_once
    [where d = acknowledged_db and i = 0 and cs = later_calls]
  have f: "filter (\<lambda>x. al_id x = 0) (alerts one_alert_db) = [panic_alert]"
    by (simp add: one_alert_db_def panic_alert_fields)
  from t [THEN conjunct1, THEN mp, OF disjI1 [OF put_acknowledge]] obtain a where
    a: "filter (\<lambda>x. al_id x = 0) (alerts one_alert_db) = [a]" and
    b: "al_assigned_to acknowledged_alert =
           (if \<not> truthy_text (al_assigned_to a) \<and>
               u_role police1 \<in> {''police'', ''admin'', ''tourism_dept''}
            then Some (u_id police1) else al_assigned_to a)"
    by (elim exE conjE) (rule that)
  from a f have "a = panic_alert" by simp
  with b have c1: "al_assigned_to acknowledged_alert = Some ''p1''"
    by (simp add: panic_alert_fields police1_def)
  have c2: "alerts acknowledged_db ! 0 = acknowledged_alert"
    by (simp add: acknowledged_db_def)
  have h: "0 < length (alerts acknowledged_db) \<and>
           truthy_text (al_assigned_to (alerts acknowledged_db ! 0))"
    using c1 by (simp add: acknowledged_db_def)
  from s [THEN conjunct2, THEN conjunct2, THEN mp, OF h]
  have "al_assigned_to (alerts (transitions later_calls acknowledged_db) ! 0)
          = al_assigned_to (alerts acknowledged_db ! 0)" by (rule conjunct2)
  with c1 c2 have c3: "al_assigned_to (alerts (transitions later_calls acknowledged_db) ! 0) = Some ''p1''"
    by simp
  show ?thesis using panic_alert_fields(3) put_acknowledge c1 c2 c3 by (intro conjI)
qed

text \<open>
  The route writes the array of the responses read, followed by the new response.
\<close>

lemma route_appends_response:
  assumes "put_alert_status sf usr alertId b now d = ((200, AlertUpdated a'), d', lg)"
  shows "\<exists>a. filter (\<lambda>x. al_id x = alertId) (alerts d) = [a] \<and>
           al_responses a' = RArray (currentResponses (al_responses a) @
                                [REntry (newResponse usr (the (sb_status b)) (sb_notes b) now)])"
proof -
  from put_alert_status_200 [OF assms] obtain a a2 where
    s: "select_alert (sf_fetch sf) alertId d = Inr (Data a)" and
    u: "update_alert (sf_update sf) alertId (route_updateData usr b now a) d = Inr (Data a2, d')" and
    b: "AlertUpdated a' = AlertUpdated a2"
    by (elim exE conjE) (rule that)
  from update_alert_Data [OF u] select_alert_Data(2) [OF s] b
  have "filter (\<lambda>x. al_id x = alertId) (alerts d) = [a] \<and>
        al_responses a' = RArray (currentResponses (al_responses a) @
                                [REntry (newResponse usr (the (sb_status b)) (sb_notes b) now)])"
    by (elim exE conjE) (simp add: apply_update_fields route_updateData_def)
  then show ?thesis by (rule exI)
qed

lemma first_response_text:
  "stringify_responses [REntry first_response]
     = ''[{\"responder_id\":\"p1\",\"action\":\"Status changed to acknowledged\",\"timestamp\":\"7\",\"notes\":\"\"}]''"
  by (simp add: stringify_responses_def join_def json_string_def json_escape_def first_response_def
        newResponse_def police1_def decimal.simps [of 7] digit_char_def)

lemma controller_acknowledged_fields:
  "al_id controller_acknowledged = 0" "al_tourist_id controller_acknowledged = ''u1''"
  "al_responses controller_acknowledged = RText (stringify_responses [REntry first_response])"
  "al_assigned_to controller_acknowledged = Some ''p1''"
  by (simp_all add: controller_acknowledged_def apply_update_fields controller_updateData_def
        panic_alert_fields ack_body_def first_response_def police1_def)

lemma controller_acknowledge:
  "updateAlertStatus no_status_faults police1 0 ack_body 7 one_alert_db
     = ((200, AlertUpdated controller_acknowledged),
        one_alert_db\<lparr>alerts := [controller_acknowledged]\<rparr>, [])"
  by (simp add: updateAlertStatus_def no_status_faults_def one_alert_selected police1_def
        panic_alert_fields controller_acknowledged_def one_alert_db_def)

lemma controller_resolve:
  "updateAlertStatus no_status_faults police2 0 resolve_body 8
       (one_alert_db\<lparr>alerts := [controller_acknowledged]\<rparr>)
     = ((200, AlertUpdated controller_resolved),
        one_alert_db\<lparr>alerts := [controller_resolved]\<rparr>, [])"
  by (simp add: updateAlertStatus_def no_status_faults_def police2_def
        controller_acknowledged_fields controller_resolved_def one_alert_db_def)

text \<open>
  Claim C4 fails in the controller. \<open>updateAlertStatus\<close> writes the responses as a JSON
  text. The first transition of an alert stores the text of the one-element array. The
  second transition reads that text back, spreads it into its characters and appends the
  new response: what it stores is the text of an array of one-character strings that
  starts with \<open>"["\<close>, followed by the second response; the first response is no longer an
  element.
\<close>

theorem controller_spreads_response_text:
  "updateAlertStatus no_status_faults police1 0 ack_body 7 one_alert_db
     = ((200, AlertUpdated controller_acknowledged),
        one_alert_db\<lparr>alerts := [controller_acknowledged]\<rparr>, []) \<and>
   al_responses controller_acknowledged = RText (stringify_responses [REntry first_response]) \<and>
   updateAlertStatus no_status_faults police2 0 resolve_body 8
       (one_alert_db\<lparr>alerts := [controller_acknowledged]\<rparr>)
     = ((200, AlertUpdated controller_resolved),
        one_alert_db\<lparr>alerts := [controller_resolved]\<rparr>, []) \<and>
   al_responses controller_resolved
     = RText (stringify_responses
                (map RChar (stringify_responses [REntry first_response]) @ [REntry second_response])) \<and>
   hd (map RChar (stringify_responses [REntry first_response]) @ [REntry second_response])
     = RChar CHR ''['' \<and>
   REntry first_response \<notin> set (map RChar (stringify_responses [REntry first_response]))"
proof -
  have r: "al_responses controller_resolved
     = RText (stringify_responses
                (map RChar (stringify_responses [REntry first_response]) @ [REntry second_response]))"
    by (simp add: controller_resolved_def apply_update_fields controller_updateData_def
        controller_acknowledged_fields resolve_body_def second_response_def)
  have h: "hd (map RChar (stringify_responses [REntry first_response]) @ [REntry second_response])
     = RChar CHR ''[''"
    by (simp add: stringify_responses_def)
  have n: "REntry first_response \<notin> set (map RChar (stringify_responses [REntry first_response]))"
    by auto
  show ?thesis
    using controller_acknowledge controller_acknowledged_fields(3) controller_resolve r h n
    by (intro conjI)
qed

text \<open>
  Claim C6 fails in the controller. \<open>updateAlertStatus\<close> makes no check of the requested
  status: the status \<open>bogus\<close> is written and answered with 200, where the route answers
  400 and leaves the store as it was.
\<close>

theorem controller_writes_any_status:
  "fst (fst (updateAlertStatus no_status_faults police1 0 bogus_body 7 one_alert_db)) = 200 \<and>
   map al_status (alerts (fst (snd (updateAlertStatus no_status_faults police1 0 bogus_body 7
                                      one_alert_db))))
     = [Some ''bogus''] \<and>
   put_alert_status no_status_faults police1 0 bogus_body 7 one_alert_db
     = ((400, Error ''Status must be one of: active, acknowledged, resolved, false_alarm''),
        one_alert_db, [])"
proof -
  have "updateAlertStatus no_status_faults police1 0 bogus_body 7 one_alert_db
     = ((200, AlertUpdated (apply_update (controller_updateData police1 bogus_body 7 panic_alert)
                              panic_alert)),
        one_alert_db\<lparr>alerts := [apply_update (controller_updateData police1 bogus_body 7 panic_alert)
                              panic_alert]\<rparr>, [])"
    by (simp add: updateAlertStatus_def no_status_faults_def one_alert_selected police1_def
        panic_alert_fields one_alert_db_def)
  then have a: "fst (fst (updateAlertStatus no_status_faults police1 0 bogus_body 7 one_alert_db)) = 200"
    and b: "map al_status (alerts (fst (snd (updateAlertStatus no_status_faults police1 0 bogus_body 7
                                      one_alert_db)))) = [Some ''bogus'']"
    by (simp_all add: apply_update_fields controller_updateData_def bogus_body_def)
  have c: "put_alert_status no_status_faults police1 0 bogus_body 7 one_alert_db
     = ((400, Error ''Status must be one of: active, acknowledged, resolved, false_alarm''),
        one_alert_db, [])"
    by (simp add: put_alert_status_def bogus_body_def validStatuses_def join_def)
  show ?thesis using a b c by (intro conjI)
qed

text \<open>
  The route refuses every status outside the four values before it reads the store, and
  makes no check against the current status: a valid status is written whatever the
  status of the alert.
\<close>

lemma put_alert_status_validates:
  assumes "\<not> truthy_text (sb_status b) \<or> the (sb_status b) \<notin> set validStatuses"
  shows "fst (fst (put_alert_status sf usr alertId b now d)) = 400"
    and "fst (snd (put_alert_status sf usr alertId b now d)) = d"
  using assms unfolding put_alert_status_def by auto

lemma put_alert_status_any_state:
  assumes "filter (\<lambda>x. al_id x = alertId) (alerts d) = [a]"
      and "sb_status b = Some s" and "s \<in> set validStatuses"
      and "u_role usr \<noteq> ''tourist'' \<or> al_tourist_id a = u_id usr"
  shows "fst (fst (put_alert_status no_status_faults usr alertId b now d)) = 200"
    and "list_all (\<lambda>x. al_id x \<noteq> alertId \<or> al_status x = Some s)
           (alerts (fst (snd (put_alert_status no_status_faults usr alertId b now d))))"
proof -
  have sel: "select_alert None alertId d = Inr (Data a)" using assms(1) by simp
  have v: "truthy_text (sb_status b)" "the (sb_status b) \<in> set validStatuses"
    using assms(2,3) by (auto simp: validStatuses_def)
  have e: "put_alert_status no_status_faults usr alertId b now d
             = ((200, AlertUpdated (apply_update (route_updateData usr b now a) a)),
                d\<lparr>alerts := map (\<lambda>x. if al_id x = alertId
                                        then apply_update (route_updateData usr b now a) x else x)
                                 (alerts d)\<rparr>, [])"
    using v assms(1,4) sel unfolding put_alert_status_def no_status_faults_def by auto
  show "fst (fst (put_alert_status no_status_faults usr alertId b now d)) = 200"
    unfolding e by simp
  show "list_all (\<lambda>x. al_id x \<noteq> alertId \<or> al_status x = Some s)
           (alerts (fst (snd (put_alert_status no_status_faults usr alertId b now d))))"
  proof -
    have "al_status (apply_update (route_updateData usr b now a) x) = Some s" for x
      using assms(2) by (simp add: apply_update_fields route_updateData_def)
    then show ?thesis unfolding e by (auto simp: list_all_iff)
  qed
qed

end
